theory Spec2Isabelle
  imports Complex_Main "HOL-Library.Log_Nat"
begin

section \<open>Python values, exceptions and dictionaries\<close>

text \<open>
  The service is one Python module, \<^verbatim>\<open>src/main.py\<close>. Its functions call third-party
  services (a screening endpoint, a quote/history/news endpoint, an SMTP server, a
  spreadsheet). Each such call is a parameter of the model: a function that returns
  either a raised exception (\<open>Inl\<close>) or the call's value (\<open>Inr\<close>). Nothing is
  assumed about these parameters unless a theorem says so.

  The figures of the index snapshots are doubles, computed with as the code does.
  The figures of the screening endpoint are only sorted and compared, never computed
  with: they are kept as rationals.
\<close>

datatype exn =
  UpstreamError | KeyError | AttributeError | TypeError | ValueError | ZeroDivisionError
  | GSpreadException

definition bind_exn :: "exn + 'a \<Rightarrow> ('a \<Rightarrow> exn + 'b) \<Rightarrow> exn + 'b" where
  "bind_exn m f = (case m of Inl e \<Rightarrow> Inl e | Inr x \<Rightarrow> f x)"

text \<open>
  \<^verbatim>\<open>try: body except Exception as e: handler\<close>. What the whole statement raises
  is what the handler raises.
\<close>

definition try_except :: "exn + 'a \<Rightarrow> (exn \<Rightarrow> exn + 'a) \<Rightarrow> exn + 'a" where
  "try_except body handler = (case body of Inl e \<Rightarrow> handler e | Inr x \<Rightarrow> Inr x)"

text \<open>
  A Python float is an IEEE double: a rational that a double holds, NaN, or an
  infinity (the sign of a zero is not kept). \<open>round_half_even\<close> rounds a rational
  to the nearest integer, a tie going to the even neighbour.
\<close>

datatype float = Finite rat | NaN | PInf | NInf

definition round_half_even :: "rat \<Rightarrow> int" where
  "round_half_even y =
     (let f = \<lfloor>y\<rfloor>; d = y - of_int f
      in if d < 1 / 2 then f else if 1 / 2 < d then f + 1 else if even f then f else f + 1)"

definition pow2 :: "int \<Rightarrow> rat" where
  "pow2 e = (if 0 \<le> e then 2 ^ nat e else 1 / 2 ^ nat (- e))"

text \<open>The binary exponent of a rational other than 0: the \<open>e\<close> with \<open>2^e \<le> |x| < 2^(e+1)\<close>.\<close>

definition ilog2 :: "rat \<Rightarrow> int" where
  "ilog2 x =
     (let (p, q) = quotient_of \<bar>x\<bar>; d = bitlen p - bitlen q
      in if pow2 d \<le> \<bar>x\<bar> then d else d - 1)"

text \<open>
  The double nearest to a rational (round to nearest, ties to even): 53 significant
  bits, a spacing of \<open>2^-1074\<close> below \<open>2^-1022\<close>, and an infinity from \<open>2^1024\<close> on.
  Every arithmetic operation on doubles returns this rounding of the exact result.
\<close>

definition to_double :: "rat \<Rightarrow> float" where
  "to_double x =
     (if x = 0 then Finite 0
      else let e = ilog2 x;
               q = pow2 (max e (- 1022) - 52);
               y = of_int (round_half_even (x / q)) * q
           in if 1024 \<le> ilog2 y then (if 0 < y then PInf else NInf) else Finite y)"

text \<open>Subtraction \<^verbatim>\<open>x - y\<close> of doubles.\<close>

fun fsub :: "float \<Rightarrow> float \<Rightarrow> float" where
  "fsub (Finite a) (Finite b) = to_double (a - b)"
| "fsub NaN y = NaN"
| "fsub x NaN = NaN"
| "fsub PInf PInf = NaN"
| "fsub NInf NInf = NaN"
| "fsub PInf y = PInf"
| "fsub NInf y = NInf"
| "fsub (Finite a) PInf = NInf"
| "fsub (Finite a) NInf = PInf"

text \<open>
  Division \<^verbatim>\<open>x / y\<close> of doubles, and the Python division \<open>py_div\<close>, which faults on
  a zero divisor.
\<close>

fun fdiv :: "float \<Rightarrow> float \<Rightarrow> float" where
  "fdiv (Finite a) (Finite b) =
     (if b = 0 then (if a = 0 then NaN else if 0 < a then PInf else NInf)
      else to_double (a / b))"
| "fdiv NaN y = NaN"
| "fdiv x NaN = NaN"
| "fdiv (Finite a) y = Finite 0"
| "fdiv PInf (Finite b) = (if b < 0 then NInf else PInf)"
| "fdiv NInf (Finite b) = (if b < 0 then PInf else NInf)"
| "fdiv x y = NaN"

definition py_div :: "float \<Rightarrow> float \<Rightarrow> exn + float" where
  "py_div a b = (if b = Finite 0 then Inl ZeroDivisionError else Inr (fdiv a b))"

text \<open>The product \<^verbatim>\<open>x * 100\<close>.\<close>

fun fmul100 :: "float \<Rightarrow> float" where
  "fmul100 (Finite a) = to_double (a * 100)"
| "fmul100 x = x"

text \<open>
  \<^verbatim>\<open>round(x, 2)\<close>: the exact value of the double is rounded to the nearest multiple
  of 1/100, a tie going to the even neighbour (\<open>round2\<close>), and the result is the
  double nearest to that decimal. NaN and the infinities are returned as they are.
\<close>

definition round2 :: "rat \<Rightarrow> rat" where
  "round2 x = of_int (round_half_even (x * 100)) / 100"

fun py_round2 :: "float \<Rightarrow> float" where
  "py_round2 (Finite a) = to_double (round2 a)"
| "py_round2 x = x"

text \<open>
  A Python \<^verbatim>\<open>dict\<close> keeps its keys in insertion order: an association list with
  distinct keys. \<^verbatim>\<open>d[k] = v\<close> replaces the value in place when the key is there and
  appends the pair otherwise; \<^verbatim>\<open>d.get(k, default)\<close> reads it.
\<close>

fun dict_set :: "'k \<Rightarrow> 'v \<Rightarrow> ('k \<times> 'v) list \<Rightarrow> ('k \<times> 'v) list" where
  "dict_set k v [] = [(k, v)]"
| "dict_set k v ((k', v') # d) =
     (if k' = k then (k, v) # d else (k', v') # dict_set k v d)"

definition dict_get :: "('k \<times> 'v) list \<Rightarrow> 'k \<Rightarrow> 'v \<Rightarrow> 'v" where
  "dict_get d k dflt = (case map_of d k of None \<Rightarrow> dflt | Some v \<Rightarrow> v)"

text \<open>
  \<^verbatim>\<open>s.replace("_", " ").title()\<close> on ASCII text: every run of letters starts with a
  capital and continues in lower case.
\<close>

definition is_lower :: "char \<Rightarrow> bool" where
  "is_lower c = (97 \<le> (of_char c :: nat) \<and> (of_char c :: nat) \<le> 122)"

definition is_upper :: "char \<Rightarrow> bool" where
  "is_upper c = (65 \<le> (of_char c :: nat) \<and> (of_char c :: nat) \<le> 90)"

definition to_upper :: "char \<Rightarrow> char" where
  "to_upper c = (if is_lower c then char_of ((of_char c :: nat) - 32) else c)"

definition to_lower :: "char \<Rightarrow> char" where
  "to_lower c = (if is_upper c then char_of ((of_char c :: nat) + 32) else c)"

fun title_from :: "bool \<Rightarrow> string \<Rightarrow> string" where
  "title_from prev [] = []"
| "title_from prev (c # cs) =
     (if is_lower c \<or> is_upper c
      then (if prev then to_lower c else to_upper c) # title_from True cs
      else c # title_from False cs)"

definition title :: "string \<Rightarrow> string" where
  "title s = title_from False s"

definition replace_char :: "char \<Rightarrow> char \<Rightarrow> string \<Rightarrow> string" where
  "replace_char a b s = map (\<lambda>c. if c = a then b else c) s"

definition display_name :: "string \<Rightarrow> string" where
  "display_name key = title (replace_char (CHR ''_'') (CHR '' '') key)"

section \<open>Index snapshots: \<^verbatim>\<open>fetch_indian_indices\<close>\<close>

text \<open>
  \<^verbatim>\<open>ticker.history(period="2d")\<close> returns a frame of daily bars, oldest first. The model
  keeps the two columns the code reads, and whether the \<^verbatim>\<open>Volume\<close> column exists.
\<close>

record bar =
  Close :: float
  Volume :: int

record history =
  has_Volume :: bool
  bars :: "bar list"

datatype status = live_data | no_data | error

record snapshot =
  symbol :: string
  name :: string
  current_price :: "float option"
  previous_close :: "float option"
  change :: "float option"
  change_percent :: "float option"
  volume :: "int option"
  status :: status

definition INDIAN_INDICES :: "(string \<times> string) list" where
  "INDIAN_INDICES =
     [(''nifty'', ''^NSEI''), (''sensex'', ''^BSESN''), (''banknifty'', ''^NSEBANK''),
      (''midcap_nifty'', ''NIFTYMIDCAP50.NS'')]"

text \<open>The record written when no figure is available (lines 171--180 and 185--194).\<close>

definition blank_snapshot :: "string \<Rightarrow> string \<Rightarrow> status \<Rightarrow> snapshot" where
  "blank_snapshot index_name symb st =
     \<lparr>symbol = symb, name = display_name index_name, current_price = None,
      previous_close = None, change = None, change_percent = None, volume = None,
      status = st\<rparr>"

text \<open>
  The statements inside the inner \<^verbatim>\<open>try\<close> (lines 142--181), for one index. The result
  is \<open>Inl\<close> when one of them raises.
\<close>

definition index_try :: "(string \<Rightarrow> exn + history) \<Rightarrow> string \<Rightarrow> string \<Rightarrow> exn + snapshot" where
  "index_try ticker_history index_name symb =
     bind_exn (ticker_history symb) (\<lambda>hist.
       if bars hist \<noteq> [] \<and> 1 \<le> length (bars hist) then
         let price = Close (last (bars hist)) in
         bind_exn
           (if 2 \<le> length (bars hist) then
              let prev_close = Close (bars hist ! (length (bars hist) - 2));
                  chg = fsub price prev_close
              in bind_exn
                   (if prev_close \<noteq> Finite 0
                    then bind_exn (py_div chg prev_close) (\<lambda>q. Inr (fmul100 q))
                    else Inr (Finite 0))
                   (\<lambda>pct. Inr (prev_close, chg, pct))
            else Inr (price, Finite 0, Finite 0))
           (\<lambda>(prev_close, chg, pct).
              Inr \<lparr>symbol = symb, name = display_name index_name,
                   current_price = Some (py_round2 price),
                   previous_close = Some (py_round2 prev_close),
                   change = Some (py_round2 chg),
                   change_percent = Some (py_round2 pct),
                   volume = Some (if has_Volume hist \<and> bars hist \<noteq> []
                                  then Volume (last (bars hist)) else 0),
                   status = live_data\<rparr>)
       else Inr (blank_snapshot index_name symb no_data))"

text \<open>
  The inner \<^verbatim>\<open>try ... except Exception\<close> (lines 140--195): any exception becomes
  an \<open>error\<close> record, and the loop goes on.
\<close>

definition index_entry :: "(string \<Rightarrow> exn + history) \<Rightarrow> string \<Rightarrow> string \<Rightarrow> exn + snapshot" where
  "index_entry ticker_history index_name symb =
     try_except (index_try ticker_history index_name symb)
       (\<lambda>e. Inr (blank_snapshot index_name symb error))"

text \<open>The loop over \<^verbatim>\<open>INDIAN_INDICES.items()\<close>, storing one record per key.\<close>

fun indices_loop ::
  "(string \<Rightarrow> exn + history) \<Rightarrow> (string \<times> string) list \<Rightarrow> (string \<times> snapshot) list
     \<Rightarrow> exn + (string \<times> snapshot) list" where
  "indices_loop ticker_history [] indices_data = Inr indices_data"
| "indices_loop ticker_history ((index_name, symb) # items) indices_data =
     bind_exn (index_entry ticker_history index_name symb) (\<lambda>s.
       indices_loop ticker_history items (dict_set index_name s indices_data))"

text \<open>The outer \<^verbatim>\<open>try\<close> (lines 136--202) returns the empty dictionary on an exception.\<close>

definition fetch_indian_indices ::
  "(string \<Rightarrow> exn + history) \<Rightarrow> exn + (string \<times> snapshot) list" where
  "fetch_indian_indices ticker_history =
     try_except (indices_loop ticker_history INDIAN_INDICES []) (\<lambda>e. Inr [])"

text \<open>
  What one index's entry is, as a value: the record of the inner \<^verbatim>\<open>try\<close>, or the
  \<open>error\<close> record when it raised.
\<close>

definition index_snapshot :: "(string \<Rightarrow> exn + history) \<Rightarrow> string \<Rightarrow> string \<Rightarrow> snapshot" where
  "index_snapshot ticker_history index_name symb =
     (case index_try ticker_history index_name symb of
        Inl e \<Rightarrow> blank_snapshot index_name symb error
      | Inr s \<Rightarrow> s)"

text \<open>A run of the history service used in the examples below.\<close>

definition history_example :: "string \<Rightarrow> exn + history" where
  "history_example symb =
     (if symb = ''^NSEI'' then Inl UpstreamError
      else if symb = ''^BSESN'' then Inr \<lparr>has_Volume = True, bars = []\<rparr>
      else if symb = ''^NSEBANK''
        then Inr \<lparr>has_Volume = True,
                  bars = [\<lparr>Close = Finite 4, Volume = 7\<rparr>,
                          \<lparr>Close = Finite (81 / 16), Volume = 9\<rparr>]\<rparr>
      else Inr \<lparr>has_Volume = False,
                bars = [\<lparr>Close = Finite 0, Volume = 1\<rparr>,
                        \<lparr>Close = Finite 3, Volume = 2\<rparr>]\<rparr>)"

text \<open>
  A second run: the first index closes at 20000 and then at 20003, the second at NaN
  and then at 5, and the other requests raise.
\<close>

definition history_close :: "string \<Rightarrow> exn + history" where
  "history_close symb =
     (if symb = ''^NSEI''
        then Inr \<lparr>has_Volume = True,
                  bars = [\<lparr>Close = Finite 20000, Volume = 7\<rparr>,
                          \<lparr>Close = Finite 20003, Volume = 9\<rparr>]\<rparr>
      else if symb = ''^BSESN''
        then Inr \<lparr>has_Volume = True,
                  bars = [\<lparr>Close = NaN, Volume = 7\<rparr>, \<lparr>Close = Finite 5, Volume = 9\<rparr>]\<rparr>
      else Inl UpstreamError)"

section \<open>Gainers and losers: \<^verbatim>\<open>fetch_top_stocks\<close>\<close>

text \<open>
  The query sent to the screening endpoint is a list of filters
  \<^verbatim>\<open>[operator, [field, operand]]\<close>.
\<close>

datatype cmp = OpGt | OpLt | OpEq

datatype operand = Num rat | Str string

type_synonym query_filter = "cmp \<times> string \<times> operand"

text \<open>
  A row of the frame the endpoint returns: the four columns the code reads, and the
  two screened fields (market capitalisation, region) that it does not read.
\<close>

record equity =
  equity_symbol :: string
  regularMarketPrice :: rat
  regularMarketChangePercent :: rat
  regularMarketVolume :: int
  intradaymarketcap :: rat
  region :: string

record frame =
  columns :: "string list"
  rows :: "equity list"

text \<open>One record of \<^verbatim>\<open>to_dict(orient="records")\<close> over the four selected columns.\<close>

record stock_row =
  stock_symbol :: string
  price :: rat
  percent_change :: rat
  day_volume :: int

text \<open>Lines 51--65: the filters, in the order they are appended.\<close>

definition build_filters :: "string option \<Rightarrow> bool \<Rightarrow> query_filter list" where
  "build_filters region_filter gainers =
     (let filters = [];
          filters = filters @ [if gainers then (OpGt, ''percentchange'', Num 3)
                               else (OpLt, ''percentchange'', Num (- (5 / 2)))];
          market_cap_threshold = (if region_filter = None then 2000000000 else 1000000000);
          price_threshold = (if region_filter = None then 5 else 10);
          filters = filters @ [(OpGt, ''intradaymarketcap'', Num market_cap_threshold)];
          filters = filters @ [(OpGt, ''intradayprice'', Num price_threshold)];
          filters = filters @ [(OpGt, ''dayvolume'', Num 1000)]
      in case region_filter of
           None \<Rightarrow> filters
         | Some r \<Rightarrow> if r \<noteq> [] then filters @ [(OpEq, ''region'', Str r)] else filters)"

text \<open>
  \<^verbatim>\<open>data.sort_values("regularMarketChangePercent.raw", ascending=...)\<close>: a
  \<open>KeyError\<close> when the frame has no such column. The library does not fix
  the order of rows with equal keys; the model keeps the order they came in.
\<close>

definition sort_values :: "frame \<Rightarrow> bool \<Rightarrow> exn + frame" where
  "sort_values data ascending =
     (if ''regularMarketChangePercent.raw'' \<in> set (columns data)
      then Inr (data\<lparr>rows :=
             (if ascending then sort_key regularMarketChangePercent (rows data)
              else sort_key (\<lambda>r. - regularMarketChangePercent r) (rows data))\<rparr>)
      else Inl KeyError)"

definition head :: "nat \<Rightarrow> frame \<Rightarrow> frame" where
  "head n data = data\<lparr>rows := take n (rows data)\<rparr>"

definition to_record :: "equity \<Rightarrow> stock_row" where
  "to_record r =
     \<lparr>stock_symbol = equity_symbol r, price = regularMarketPrice r,
      percent_change = regularMarketChangePercent r, day_volume = regularMarketVolume r\<rparr>"

text \<open>
  \<^verbatim>\<open>frame[[...four columns...]].to_dict(orient="records")\<close>: a \<open>KeyError\<close> when one
  of the columns is missing.
\<close>

definition select_records :: "frame \<Rightarrow> exn + stock_row list" where
  "select_records data =
     (if set [''symbol'', ''regularMarketPrice.raw'', ''regularMarketChangePercent.raw'',
              ''regularMarketVolume.raw''] \<subseteq> set (columns data)
      then Inr (map to_record (rows data))
      else Inl KeyError)"

text \<open>
  Lines 67--70 and \<^verbatim>\<open>head(5)\<close>: the rows that are returned, before the columns are
  selected. \<open>screen\<close> stands for \<^verbatim>\<open>create_query\<close>, \<^verbatim>\<open>create_payload\<close> and
  \<^verbatim>\<open>get_data\<close> together.
\<close>

definition top_frame ::
  "(query_filter list \<Rightarrow> exn + frame) \<Rightarrow> string option \<Rightarrow> bool \<Rightarrow> exn + frame" where
  "top_frame screen region_filter gainers =
     bind_exn (screen (build_filters region_filter gainers)) (\<lambda>data.
     bind_exn (sort_values data (\<not> gainers)) (\<lambda>data_sorted.
     Inr (head 5 data_sorted)))"

definition fetch_top_stocks ::
  "(query_filter list \<Rightarrow> exn + frame) \<Rightarrow> string option \<Rightarrow> bool \<Rightarrow> exn + stock_row list" where
  "fetch_top_stocks screen region_filter gainers =
     try_except (bind_exn (top_frame screen region_filter gainers) select_records)
       (\<lambda>e. Inr [])"

text \<open>
  What a filter means at the endpoint, read on a row. The code never evaluates this:
  it is the endpoint's side of the contract, used below only to say that an endpoint
  honours the query.
\<close>

definition numeric_field :: "string \<Rightarrow> equity \<Rightarrow> rat option" where
  "numeric_field fld r =
     (if fld = ''percentchange'' then Some (regularMarketChangePercent r)
      else if fld = ''intradaymarketcap'' then Some (intradaymarketcap r)
      else if fld = ''intradayprice'' then Some (regularMarketPrice r)
      else if fld = ''dayvolume'' then Some (of_int (regularMarketVolume r))
      else None)"

fun satisfies :: "query_filter \<Rightarrow> equity \<Rightarrow> bool" where
  "satisfies (c, fld, Num x) r =
     (case numeric_field fld r of
        None \<Rightarrow> False
      | Some v \<Rightarrow> (case c of OpGt \<Rightarrow> x < v | OpLt \<Rightarrow> v < x | OpEq \<Rightarrow> v = x))"
| "satisfies (c, fld, Str x) r = (c = OpEq \<and> fld = ''region'' \<and> region r = x)"

definition honours :: "query_filter list \<Rightarrow> equity list \<Rightarrow> bool" where
  "honours filters rs = list_all (\<lambda>r. list_all (\<lambda>f. satisfies f r) filters) rs"

text \<open>
  Two endpoints used in the examples below, over the same quotes: one applies the
  filters it is sent, the other returns every quote whatever the query.
\<close>

definition quote :: "string \<Rightarrow> string \<Rightarrow> rat \<Rightarrow> equity" where
  "quote s reg pct =
     \<lparr>equity_symbol = s, regularMarketPrice = 20, regularMarketChangePercent = pct,
      regularMarketVolume = 5000, intradaymarketcap = 3000000000, region = reg\<rparr>"

definition quotes_example :: "equity list" where
  "quotes_example =
     [quote ''AAA'' ''in'' 4, quote ''BBB'' ''in'' 9, quote ''CCC'' ''in'' 6,
      quote ''DDD'' ''in'' 5, quote ''EEE'' ''in'' 7, quote ''FFF'' ''in'' 8,
      quote ''GGG'' ''us'' 10, quote ''HHH'' ''in'' 1, quote ''III'' ''in'' (- 3)]"

definition all_columns :: "string list" where
  "all_columns =
     [''symbol'', ''regularMarketPrice.raw'', ''regularMarketChangePercent.raw'',
      ''regularMarketVolume.raw'', ''marketCap.raw'', ''region'']"

definition screen_example :: "query_filter list \<Rightarrow> exn + frame" where
  "screen_example filters =
     Inr \<lparr>columns = all_columns,
          rows = filter (\<lambda>r. list_all (\<lambda>f. satisfies f r) filters) quotes_example\<rparr>"

definition screen_unfiltered :: "query_filter list \<Rightarrow> exn + frame" where
  "screen_unfiltered filters = Inr \<lparr>columns = all_columns, rows = quotes_example\<rparr>"

section \<open>News: \<^verbatim>\<open>fetch_global_news\<close> and \<^verbatim>\<open>fetch_indian_news\<close>\<close>

text \<open>
  A news article is a JSON object. A key whose value the code reads with a second
  \<^verbatim>\<open>.get\<close> is absent (\<^verbatim>\<open>.get(key, {})\<close> gives the empty object), bound to an object,
  or bound to something that is no object (\<^verbatim>\<open>null\<close>, say), on which the second
  \<^verbatim>\<open>.get\<close> raises \<open>AttributeError\<close>.
\<close>

datatype 'a member = Absent | NotAnObject | Object 'a

record provider_json =
  displayName :: "string option"

record canonicalUrl_json =
  url :: "string option"
  url_region :: "string option"

record content_json =
  content_title :: "string option"
  content_provider :: "provider_json member"
  content_canonicalUrl :: "canonicalUrl_json member"

record article =
  content :: "content_json member"

record news_item =
  news_symbol :: "string option"
  news_title :: string
  publisher :: string
  link :: string

definition get_object :: "'a member \<Rightarrow> 'a \<Rightarrow> exn + 'a" where
  "get_object m dflt = (case m of Absent \<Rightarrow> Inr dflt | NotAnObject \<Rightarrow> Inl AttributeError
                                 | Object x \<Rightarrow> Inr x)"

definition get_string :: "string option \<Rightarrow> string \<Rightarrow> string" where
  "get_string m dflt = (case m of None \<Rightarrow> dflt | Some x \<Rightarrow> x)"

definition empty_content :: content_json where
  "empty_content =
     \<lparr>content_title = None, content_provider = Absent, content_canonicalUrl = Absent\<rparr>"

text \<open>Lines 220--223 (and 88--92): title, publisher and link of one article.\<close>

definition article_fields :: "article \<Rightarrow> exn + string \<times> string \<times> string" where
  "article_fields a =
     bind_exn (get_object (content a) empty_content) (\<lambda>c.
     let news_title = get_string (content_title c) ''Title not found'' in
     bind_exn (get_object (content_provider c) \<lparr>displayName = None\<rparr>) (\<lambda>p.
     let publisher = get_string (displayName p) ''Unknown'' in
     bind_exn (get_object (content_canonicalUrl c) \<lparr>url = None, url_region = None\<rparr>) (\<lambda>u.
     let link = get_string (url u) ''No link'' in
     Inr (news_title, publisher, link))))"

fun global_news_loop :: "article list \<Rightarrow> news_item list \<Rightarrow> exn + news_item list" where
  "global_news_loop [] global_news = Inr global_news"
| "global_news_loop (a # news) global_news =
     bind_exn (article_fields a) (\<lambda>(t, p, l).
       global_news_loop news
         (global_news @ [\<lparr>news_symbol = None, news_title = t, publisher = p, link = l\<rparr>]))"

definition fetch_global_news :: "(string \<Rightarrow> exn + article list) \<Rightarrow> exn + news_item list" where
  "fetch_global_news ticker_news =
     try_except
       (bind_exn (ticker_news ''^GSPC'') (\<lambda>news.
        bind_exn (global_news_loop news []) (\<lambda>global_news.
        Inr (take 5 global_news))))
       (\<lambda>e. Inr [])"

text \<open>
  \<^verbatim>\<open>fetch_indian_news\<close>. The state of the loop is the list of results and the set of
  links seen (the counter of successful symbols is only logged). The inner loop over
  \<^verbatim>\<open>ticker.news[:1]\<close> returns the state it reached and the exception that stopped it,
  if any: what was appended before an exception stays appended.
\<close>

fun articles_loop ::
  "string \<Rightarrow> article list \<Rightarrow> news_item list \<times> string set
     \<Rightarrow> (news_item list \<times> string set) \<times> exn option" where
  "articles_loop symb [] st = (st, None)"
| "articles_loop symb (a # news_articles) (news_results, seen_links) =
     (case article_fields a of
        Inl e \<Rightarrow> ((news_results, seen_links), Some e)
      | Inr (t, p, l) \<Rightarrow>
          articles_loop symb news_articles
            (if l \<notin> seen_links
             then (news_results @
                     [\<lparr>news_symbol = Some symb, news_title = t, publisher = p, link = l\<rparr>],
                   insert l seen_links)
             else (news_results, seen_links)))"

text \<open>
  One turn of the loop over the symbols, with its \<^verbatim>\<open>try ... except: continue\<close>: the
  exception of the request, or of an article, is dropped.
\<close>

definition symbol_step ::
  "(string \<Rightarrow> exn + article list) \<Rightarrow> string \<Rightarrow> news_item list \<times> string set
     \<Rightarrow> news_item list \<times> string set" where
  "symbol_step ticker_news symb st =
     (case ticker_news symb of
        Inl e \<Rightarrow> st
      | Inr news \<Rightarrow> fst (articles_loop symb (take 1 news) st))"

fun symbols_loop ::
  "(string \<Rightarrow> exn + article list) \<Rightarrow> string list \<Rightarrow> news_item list \<times> string set
     \<Rightarrow> exn + news_item list" where
  "symbols_loop ticker_news [] st = Inr (fst st)"
| "symbols_loop ticker_news (symb # symbols) st =
     symbols_loop ticker_news symbols (symbol_step ticker_news symb st)"

definition fetch_indian_news ::
  "(string \<Rightarrow> exn + article list) \<Rightarrow> string list \<Rightarrow> exn + news_item list" where
  "fetch_indian_news ticker_news symbols =
     try_except (symbols_loop ticker_news symbols ([], {})) (\<lambda>e. Inr [])"

text \<open>
  The link a symbol's top story resolves to: none when the request raises, returns no
  article, or the article cannot be read.
\<close>

definition top_link :: "(string \<Rightarrow> exn + article list) \<Rightarrow> string \<Rightarrow> string option" where
  "top_link ticker_news symb =
     (case ticker_news symb of
        Inl e \<Rightarrow> None
      | Inr [] \<Rightarrow> None
      | Inr (a # news) \<Rightarrow>
          (case article_fields a of Inl e \<Rightarrow> None | Inr (t, p, l) \<Rightarrow> Some l))"

text \<open>The record a symbol's top story is appended as, when it can be read.\<close>

definition top_item :: "(string \<Rightarrow> exn + article list) \<Rightarrow> string \<Rightarrow> news_item option" where
  "top_item ticker_news symb =
     (case ticker_news symb of
        Inl e \<Rightarrow> None
      | Inr [] \<Rightarrow> None
      | Inr (a # news) \<Rightarrow>
          (case article_fields a of
             Inl e \<Rightarrow> None
           | Inr (t, p, l) \<Rightarrow>
               Some \<lparr>news_symbol = Some symb, news_title = t, publisher = p, link = l\<rparr>))"

text \<open>
  A news service used in the examples below: \<open>A\<close> and \<open>C\<close> lead with the same
  story, the request for \<open>B\<close> (and for the global index) raises, \<open>D\<close> has a story
  of its own, \<open>E\<close> has none, and the story of \<open>F\<close> has \<^verbatim>\<open>null\<close> for content.
\<close>

definition story :: "string \<Rightarrow> string \<Rightarrow> article" where
  "story t l =
     \<lparr>content = Object
        \<lparr>content_title = Some t,
         content_provider = Object \<lparr>displayName = Some ''Wire''\<rparr>,
         content_canonicalUrl = Object \<lparr>url = Some l, url_region = None\<rparr>\<rparr>\<rparr>"

definition news_example :: "string \<Rightarrow> exn + article list" where
  "news_example symb =
     (if symb = ''A'' then Inr [story ''Rates'' ''http://n/1'', story ''Old'' ''http://n/0'']
      else if symb = ''C'' then Inr [story ''Rates again'' ''http://n/1'']
      else if symb = ''D'' then Inr [story ''Oil'' ''http://n/2'']
      else if symb = ''E'' then Inr []
      else if symb = ''F'' then Inr [\<lparr>content = NotAnObject\<rparr>]
      else Inl UpstreamError)"

definition screen_down :: "query_filter list \<Rightarrow> exn + frame" where
  "screen_down filters = Inl UpstreamError"

section \<open>Form relay: \<^verbatim>\<open>send_email\<close>, \<^verbatim>\<open>add_to_google_sheet\<close>, \<^verbatim>\<open>submit_form\<close>\<close>

text \<open>
  What the form relay can change outside the process: the mail the SMTP server has
  accepted, and the rows of the spreadsheet.
\<close>

record message =
  msg_from :: string
  msg_to :: string
  msg_subject :: string
  table_rows :: "(string \<times> string) list"
  submitted_at :: string

record world =
  outbox :: "message list"
  sheet :: "string list list"

text \<open>
  The SMTP server of one call: for each step, the exception it raises, or \<open>None\<close>
  when it succeeds.
\<close>

record smtp =
  connect :: "exn option"
  starttls :: "exn option"
  login :: "exn option"
  send_message :: "exn option"
  quit :: "exn option"

text \<open>The three readings of \<^verbatim>\<open>datetime.now()\<close> of one submission, in call order.\<close>

record clock =
  stamp_time :: string
  email_time :: string
  response_time :: string

text \<open>
  The body of the \<^verbatim>\<open>try\<close> of \<^verbatim>\<open>send_email\<close> (lines 247--309). The HTML table is kept
  as its list of cells: one row per field, the key formatted, the value as it is.
\<close>

definition send_email_try ::
  "string \<Rightarrow> smtp \<Rightarrow> string \<Rightarrow> string \<Rightarrow> (string \<times> string) list \<Rightarrow> world
     \<Rightarrow> (exn + bool) \<times> world" where
  "send_email_try password server now subject form_data w =
     (let msg = \<lparr>msg_from = ''akash.yadavv181198@gmail.com'',
                 msg_to = ''support@aadhaarcapital.com'',
                 msg_subject = subject,
                 table_rows = map (\<lambda>(key, value). (display_name key, value)) form_data,
                 submitted_at = now\<rparr>
      in case connect server of Some e \<Rightarrow> (Inl e, w) | None \<Rightarrow>
         (case starttls server of Some e \<Rightarrow> (Inl e, w) | None \<Rightarrow>
         (if password \<noteq> [] then
            (case login server of Some e \<Rightarrow> (Inl e, w) | None \<Rightarrow>
            (case send_message server of Some e \<Rightarrow> (Inl e, w) | None \<Rightarrow>
            (let w' = w\<lparr>outbox := outbox w @ [msg]\<rparr>
             in case quit server of Some e \<Rightarrow> (Inl e, w') | None \<Rightarrow> (Inr True, w'))))
          else (Inr False, w))))"

definition send_email ::
  "string \<Rightarrow> smtp \<Rightarrow> string \<Rightarrow> string \<Rightarrow> (string \<times> string) list \<Rightarrow> world
     \<Rightarrow> (exn + bool) \<times> world" where
  "send_email password server now subject form_data w =
     (case send_email_try password server now subject form_data w of
        (Inl e, w') \<Rightarrow> (Inr False, w')
      | (Inr b, w') \<Rightarrow> (Inr b, w'))"

text \<open>
  The spreadsheet service, on the rows of the sheet (row 1 first). Any call can raise
  for a reason of its own (network, quota, permission): \<open>gspread\<close> gives, for each
  call of one submission, the exception it raises, or \<open>None\<close> when the service
  answers. A call that raises leaves the sheet as it is.
\<close>

record gspread =
  fail_open :: "exn option"
  fail_get_all_records :: "exn option"
  fail_insert_row :: "exn option"
  fail_row_values :: "exn option"
  fail_delete_rows :: "exn option"
  fail_append_row :: "exn option"

definition bind_io ::
  "(world \<Rightarrow> (exn + 'a) \<times> world) \<Rightarrow> ('a \<Rightarrow> world \<Rightarrow> (exn + 'b) \<times> world)
     \<Rightarrow> world \<Rightarrow> (exn + 'b) \<times> world" where
  "bind_io m f w = (case m w of (Inl e, w') \<Rightarrow> (Inl e, w') | (Inr x, w') \<Rightarrow> f x w')"

definition service_call ::
  "exn option \<Rightarrow> (world \<Rightarrow> (exn + 'a) \<times> world) \<Rightarrow> world \<Rightarrow> (exn + 'a) \<times> world" where
  "service_call failure answer w = (case failure of Some e \<Rightarrow> (Inl e, w) | None \<Rightarrow> answer w)"

text \<open>
  \<^verbatim>\<open>get_all_values()\<close> pads every row with empty cells to the width of the widest
  row. \<^verbatim>\<open>get_all_records()\<close> takes row 1 of that table as the keys and the other
  rows as the records, and raises when a key occurs twice (an empty cell is a key
  like any other). Only the number of records is used by the caller.
\<close>

definition fill_gaps :: "string list list \<Rightarrow> string list list" where
  "fill_gaps sh =
     (let width = foldr (\<lambda>r n. max (length r) n) sh 0
      in map (\<lambda>r. r @ replicate (width - length r) []) sh)"

definition get_all_records :: "string list list \<Rightarrow> exn + (string \<times> string) list list" where
  "get_all_records sh =
     (case fill_gaps sh of
        [] \<Rightarrow> Inr []
      | keys # values \<Rightarrow>
          if distinct keys then Inr (map (zip keys) values) else Inl GSpreadException)"

definition insert_row :: "string list \<Rightarrow> nat \<Rightarrow> string list list \<Rightarrow> string list list" where
  "insert_row values i sh = take (i - 1) sh @ [values] @ drop (i - 1) sh"

definition row_values :: "nat \<Rightarrow> string list list \<Rightarrow> string list" where
  "row_values i sh = (if 1 \<le> i \<and> i \<le> length sh then sh ! (i - 1) else [])"

definition delete_rows :: "nat \<Rightarrow> string list list \<Rightarrow> string list list" where
  "delete_rows i sh = take (i - 1) sh @ drop i sh"

definition append_row :: "string list \<Rightarrow> string list list \<Rightarrow> string list list" where
  "append_row values sh = sh @ [values]"

text \<open>Lines 350--352: one cell per header, empty when the form has no such key.\<close>

definition row_data :: "string list \<Rightarrow> (string \<times> string) list \<Rightarrow> string list" where
  "row_data headers form_data = map (\<lambda>header. dict_get form_data header []) headers"

text \<open>
  The body of the \<^verbatim>\<open>try\<close> of \<^verbatim>\<open>add_to_google_sheet\<close> (lines 319--356);
  \<open>credentials\<close> says whether the service-account file is configured and exists.
\<close>

definition add_to_google_sheet_try ::
  "gspread \<Rightarrow> bool \<Rightarrow> (string \<times> string) list \<Rightarrow> world \<Rightarrow> (exn + bool) \<times> world" where
  "add_to_google_sheet_try api credentials form_data =
     (if \<not> credentials then (\<lambda>w. (Inr False, w))
      else
        bind_io (service_call (fail_open api) (\<lambda>w. (Inr (), w))) (\<lambda>opened.
        bind_io (service_call (fail_get_all_records api)
                   (\<lambda>w. (get_all_records (sheet w), w))) (\<lambda>existing_records.
        if length existing_records = 0 then
          let headers = map fst form_data in
          bind_io (service_call (fail_insert_row api)
                     (\<lambda>w. (Inr (), w\<lparr>sheet := insert_row headers 1 (sheet w)\<rparr>))) (\<lambda>inserted.
          bind_io (service_call (fail_append_row api)
                     (\<lambda>w. (Inr (), w\<lparr>sheet := append_row (row_data headers form_data) (sheet w)\<rparr>)))
            (\<lambda>appended w. (Inr True, w)))
        else
          bind_io (service_call (fail_row_values api)
                     (\<lambda>w. (Inr (row_values 1 (sheet w)), w))) (\<lambda>headers.
          let new_fields = filter (\<lambda>key. key \<notin> set headers) (map fst form_data) in
          if new_fields \<noteq> [] then
            let headers = headers @ new_fields in
            bind_io (service_call (fail_insert_row api)
                       (\<lambda>w. (Inr (), w\<lparr>sheet := insert_row headers 1 (sheet w)\<rparr>))) (\<lambda>inserted.
            bind_io (service_call (fail_delete_rows api)
                       (\<lambda>w. (Inr (), w\<lparr>sheet := delete_rows 2 (sheet w)\<rparr>))) (\<lambda>deleted.
            bind_io (service_call (fail_append_row api)
                       (\<lambda>w. (Inr (), w\<lparr>sheet := append_row (row_data headers form_data) (sheet w)\<rparr>)))
              (\<lambda>appended w. (Inr True, w))))
          else
            bind_io (service_call (fail_append_row api)
                       (\<lambda>w. (Inr (), w\<lparr>sheet := append_row (row_data headers form_data) (sheet w)\<rparr>)))
              (\<lambda>appended w. (Inr True, w))))))"

text \<open>
  \<^verbatim>\<open>add_to_google_sheet\<close>: the handler (lines 358--361) turns any exception into
  \<open>False\<close>. What was written before the exception stays written.
\<close>

definition add_to_google_sheet ::
  "gspread \<Rightarrow> bool \<Rightarrow> (string \<times> string) list \<Rightarrow> world \<Rightarrow> (exn + bool) \<times> world" where
  "add_to_google_sheet api credentials form_data w =
     (case add_to_google_sheet_try api credentials form_data w of
        (Inl e, w') \<Rightarrow> (Inr False, w')
      | (Inr b, w') \<Rightarrow> (Inr b, w'))"

text \<open>The JSON object \<^verbatim>\<open>submit_form\<close> returns, and the error it raises.\<close>

datatype json = JBool bool | JStr string | JObj "(string \<times> string) list"

datatype http_exception = HTTPException nat exn

text \<open>Lines 433--438: the dictionary built from \<^verbatim>\<open>form.items()\<close>, then stamped.\<close>

definition collect_form :: "(string \<times> string) list \<Rightarrow> string \<Rightarrow> (string \<times> string) list" where
  "collect_form form now =
     (let form_data =
            foldl (\<lambda>d (key, value). dict_set key (if value \<noteq> [] then value else ''Not provided'') d)
              [] form
      in dict_set ''timestamp'' now form_data)"

text \<open>
  The body of the \<^verbatim>\<open>try\<close> of \<^verbatim>\<open>submit_form\<close> (lines 430--457). \<open>request_form\<close> is
  the outcome of \<^verbatim>\<open>await request.form()\<close>: an exception, or the pairs of
  \<^verbatim>\<open>form.items()\<close>, each key once. The call of \<^verbatim>\<open>add_to_google_sheet\<close> on line 448 is
  a comment, so nothing is called there.
\<close>

definition submit_form_try ::
  "exn + (string \<times> string) list \<Rightarrow> clock \<Rightarrow> string \<Rightarrow> smtp \<Rightarrow> world
     \<Rightarrow> (exn + (string \<times> json) list) \<times> world" where
  "submit_form_try request_form clk password server w =
     (case request_form of
        Inl e \<Rightarrow> (Inl e, w)
      | Inr form \<Rightarrow>
          let form_data = collect_form form (stamp_time clk);
              subject = dict_get form_data ''subject'' ''Aadhar Capital Website Enquiry''
          in (case send_email password server (email_time clk) subject form_data w of
                (Inl e, w') \<Rightarrow> (Inl e, w')
              | (Inr email_sent, w') \<Rightarrow>
                  (Inr [(''success'', JBool True),
                        (''message'', JStr ''Form submitted successfully''),
                        (''email_sent'', JBool email_sent),
                        (''timestamp'', JStr (response_time clk)),
                        (''data'', JObj form_data)], w')))"

definition submit_form ::
  "exn + (string \<times> string) list \<Rightarrow> clock \<Rightarrow> string \<Rightarrow> smtp \<Rightarrow> world
     \<Rightarrow> (http_exception + (string \<times> json) list) \<times> world" where
  "submit_form request_form clk password server w =
     (case submit_form_try request_form clk password server w of
        (Inl e, w') \<Rightarrow> (Inl (HTTPException 500 e), w')
      | (Inr response, w') \<Rightarrow> (Inr response, w'))"

text \<open>A server, a clock and a starting state used in the examples below.\<close>

definition smtp_ok :: smtp where
  "smtp_ok = \<lparr>connect = None, starttls = None, login = None, send_message = None, quit = None\<rparr>"

definition clock_example :: clock where
  "clock_example =
     \<lparr>stamp_time = ''2024-01-01T10:00:00'', email_time = ''2024-01-01 10:00:00'',
      response_time = ''2024-01-01T10:00:01''\<rparr>"

definition world_example :: world where
  "world_example = \<lparr>outbox = [], sheet = [[''a''], [''0'']]\<rparr>"

definition smtp_quit_fails :: smtp where
  "smtp_quit_fails =
     \<lparr>connect = None, starttls = None, login = None, send_message = None,
      quit = Some UpstreamError\<rparr>"

definition gspread_ok :: gspread where
  "gspread_ok =
     \<lparr>fail_open = None, fail_get_all_records = None, fail_insert_row = None,
      fail_row_values = None, fail_delete_rows = None, fail_append_row = None\<rparr>"

section \<open>Properties of the index snapshots\<close>

lemma to_double_round2_zero: "to_double (round2 0) = Finite 0"
  by (simp add: to_double_def round2_def round_half_even_def)

lemma pow2_powi: "pow2 e = 2 powi e"
  by (simp add: pow2_def power_int_def field_simps)

lemma of_int_bitlen_bounds:
  assumes "0 < (p :: int)"
  shows "(2 :: rat) powi (bitlen p - 1) \<le> of_int p" and "of_int p < (2 :: rat) powi bitlen p"
proof -
  from bitlen_bounds [OF assms]
  have a: "2 ^ nat (bitlen p - 1) \<le> p" and b: "p < 2 ^ nat (bitlen p)"
    by auto
  have pos: "1 \<le> bitlen p"
    using assms bitlen_eq_zero_iff [of p] bitlen_nonneg [of p] by linarith
  have "(2 :: rat) powi (bitlen p - 1) = of_int (2 ^ nat (bitlen p - 1))"
    using pos by (simp add: power_int_def)
  also have "\<dots> \<le> of_int p"
    using a by (simp only: of_int_le_iff)
  finally show "(2 :: rat) powi (bitlen p - 1) \<le> of_int p" .
  have "of_int p < (of_int (2 ^ nat (bitlen p)) :: rat)"
    using b by (simp only: of_int_less_iff)
  also have "\<dots> = 2 powi bitlen p"
    using pos by (simp add: power_int_def)
  finally show "of_int p < (2 :: rat) powi bitlen p" .
qed

lemma ilog2_bounds:
  assumes "x \<noteq> 0"
  shows "pow2 (ilog2 x) \<le> \<bar>x\<bar> \<and> \<bar>x\<bar> < pow2 (ilog2 x + 1)"
proof -
  obtain p q where pq: "quotient_of \<bar>x\<bar> = (p, q)"
    by (cases "quotient_of \<bar>x\<bar>")
  have q: "0 < q"
    using pq by (rule quotient_of_denom_pos)
  have x: "\<bar>x\<bar> = of_int p / of_int q"
    using pq by (rule quotient_of_div)
  have p: "0 < p"
  proof -
    have "0 < \<bar>x\<bar>" using assms by simp
    then have "0 < (of_int p :: rat) / of_int q" by (simp only: x)
    with q show ?thesis by (simp add: zero_less_divide_iff)
  qed
  let ?d = "bitlen p - bitlen q"
  have lo: "2 powi (?d - 1) \<le> \<bar>x\<bar>"
  proof -
    have "(2 :: rat) powi (?d - 1) = 2 powi (bitlen p - 1) / 2 powi bitlen q"
      by (simp add: power_int_diff)
    also have "\<dots> \<le> of_int p / 2 powi bitlen q"
      using of_int_bitlen_bounds(1) [OF p] by (simp add: divide_right_mono)
    also have "\<dots> \<le> of_int p / of_int q"
      using of_int_bitlen_bounds(2) [OF q] p q by (intro divide_left_mono) auto
    finally show ?thesis by (simp only: x)
  qed
  have hi: "\<bar>x\<bar> < 2 powi (?d + 1)"
  proof -
    have "of_int p / of_int q < (2 :: rat) powi bitlen p / of_int q"
      using of_int_bitlen_bounds(2) [OF p] q by (simp add: divide_strict_right_mono)
    also have "\<dots> \<le> 2 powi bitlen p / 2 powi (bitlen q - 1)"
      using of_int_bitlen_bounds(1) [OF q] q by (intro divide_left_mono) auto
    also have "\<dots> = 2 powi (?d + 1)"
      by (simp add: power_int_diff power_int_add)
    finally show ?thesis by (simp only: x)
  qed
  show ?thesis
  proof (cases "pow2 ?d \<le> \<bar>x\<bar>")
    case True
    then have "ilog2 x = ?d"
      by (simp add: ilog2_def pq)
    with True hi show ?thesis
      by (simp add: pow2_powi)
  next
    case False
    then have "ilog2 x = ?d - 1"
      by (simp add: ilog2_def pq)
    with False lo show ?thesis
      by (simp add: pow2_powi)
  qed
qed


lemma round_half_even_error: "\<bar>of_int (round_half_even y) - y\<bar> \<le> 1 / 2"
proof -
  have "of_int \<lfloor>y\<rfloor> \<le> y" and "y < of_int \<lfloor>y\<rfloor> + 1"
    by linarith+
  then show ?thesis
    by (auto simp: round_half_even_def Let_def)
qed

lemma round2_error: "\<bar>round2 x - x\<bar> \<le> 1 / 200"
proof -
  have "\<bar>of_int (round_half_even (x * 100)) - x * 100\<bar> \<le> 1 / 2"
    by (rule round_half_even_error)
  then show ?thesis
    by (simp add: round2_def abs_le_iff field_simps)
qed

lemma pow2_pos: "0 < pow2 e"
  by (simp add: pow2_powi)

lemma scaled_error:
  assumes "0 < (q :: rat)"
  shows "\<bar>m * q - x\<bar> = \<bar>m - x / q\<bar> * q"
proof -
  have "m * q - x = (m - x / q) * q"
    using assms by (simp add: field_simps)
  then show ?thesis
    using assms by (simp add: abs_mult)
qed

lemma to_double_half_ulp:
  assumes "to_double x = Finite y" and "x \<noteq> 0"
  shows "\<bar>y - x\<bar> \<le> pow2 (max (ilog2 x) (- 1022) - 53)"
proof -
  let ?q = "pow2 (max (ilog2 x) (- 1022) - 52)"
  have y: "y = of_int (round_half_even (x / ?q)) * ?q"
    using assms by (simp add: to_double_def Let_def split: if_splits)
  have q: "0 < ?q"
    by (rule pow2_pos)
  have "\<bar>y - x\<bar> = \<bar>of_int (round_half_even (x / ?q)) - x / ?q\<bar> * ?q"
    unfolding y by (rule scaled_error [OF q])
  also have "\<dots> \<le> 1 / 2 * ?q"
    using round_half_even_error [of "x / ?q"] q by (intro mult_right_mono) auto
  also have "\<dots> = pow2 (max (ilog2 x) (- 1022) - 53)"
    by (simp add: pow2_powi power_int_diff)
  finally show ?thesis .
qed

lemma to_double_close:
  assumes "to_double x = Finite y"
  shows "\<bar>y - x\<bar> \<le> \<bar>x\<bar> / 2 ^ 53 + 1 / 2 ^ 1075"
proof (cases "x = 0")
  case True
  with assms show ?thesis
    by (simp add: to_double_def)
next
  case False
  note half = to_double_half_ulp [OF assms False]
  show ?thesis
  proof (cases "- 1022 \<le> ilog2 x")
    case True
    then have "pow2 (max (ilog2 x) (- 1022) - 53) = pow2 (ilog2 x) / 2 ^ 53"
      by (simp add: pow2_powi power_int_diff max_def)
    also have "\<dots> \<le> \<bar>x\<bar> / 2 ^ 53"
      using ilog2_bounds [OF False] by (simp add: divide_right_mono)
    finally show ?thesis
      using half by simp
  next
    case False
    then have "pow2 (max (ilog2 x) (- 1022) - 53) = 1 / 2 ^ 1075"
      by (simp add: pow2_def max_def)
    then show ?thesis
      using half by simp
  qed
qed

lemma index_entry_snapshot:
  "index_entry th index_name symb = Inr (index_snapshot th index_name symb)"
  by (simp add: index_entry_def index_snapshot_def try_except_def split: sum.split)

lemma fetch_indian_indices_unfold:
  "fetch_indian_indices th =
     Inr [(''nifty'', index_snapshot th ''nifty'' ''^NSEI''),
          (''sensex'', index_snapshot th ''sensex'' ''^BSESN''),
          (''banknifty'', index_snapshot th ''banknifty'' ''^NSEBANK''),
          (''midcap_nifty'', index_snapshot th ''midcap_nifty'' ''NIFTYMIDCAP50.NS'')]"
  by (simp add: fetch_indian_indices_def INDIAN_INDICES_def index_entry_snapshot
      bind_exn_def try_except_def)

lemma fetch_indian_indices_lookup:
  assumes "(index_name, symb) \<in> set INDIAN_INDICES"
  shows "\<exists>d. fetch_indian_indices th = Inr d \<and>
           map_of d index_name = Some (index_snapshot th index_name symb)"
  using assms by (auto simp: fetch_indian_indices_unfold INDIAN_INDICES_def)

lemma index_snapshot_cong:
  "th' symb = th symb \<Longrightarrow> index_snapshot th' index_name symb = index_snapshot th index_name symb"
  by (simp add: index_snapshot_def index_try_def)

lemma index_snapshot_no_bars:
  "th symb = Inr hist \<Longrightarrow> bars hist = [] \<Longrightarrow>
     index_snapshot th index_name symb = blank_snapshot index_name symb no_data"
  by (simp add: index_snapshot_def index_try_def bind_exn_def)

lemma index_snapshot_raise:
  "th symb = Inl e \<Longrightarrow> index_snapshot th index_name symb = blank_snapshot index_name symb error"
  by (simp add: index_snapshot_def index_try_def bind_exn_def)

lemma index_try_two_or_more:
  assumes "th symb = Inr hist" and "2 \<le> length (bars hist)"
  shows "index_try th index_name symb =
    (let cur = Close (last (bars hist)); prev = Close (bars hist ! (length (bars hist) - 2))
     in Inr \<lparr>symbol = symb, name = display_name index_name,
             current_price = Some (py_round2 cur),
             previous_close = Some (py_round2 prev),
             change = Some (py_round2 (fsub cur prev)),
             change_percent =
               Some (py_round2 (if prev \<noteq> Finite 0 then fmul100 (fdiv (fsub cur prev) prev)
                                else Finite 0)),
             volume = Some (if has_Volume hist then Volume (last (bars hist)) else 0),
             status = live_data\<rparr>)"
proof -
  from assms(2) have ne: "bars hist \<noteq> []" and one: "Suc 0 \<le> length (bars hist)"
    by auto
  show ?thesis
    using assms ne one
    by (simp add: index_try_def bind_exn_def py_div_def Let_def)
qed

lemma display_name_examples:
  "display_name ''nifty'' = ''Nifty''"
  "display_name ''sensex'' = ''Sensex''"
  "display_name ''banknifty'' = ''Banknifty''"
  "display_name ''midcap_nifty'' = ''Midcap Nifty''"
  by code_simp+

text \<open>
  C2. Every call of \<^verbatim>\<open>fetch_indian_indices\<close> returns (it does not raise) a dictionary
  whose keys are exactly the four configured indices, each once, whatever each request
  does. The entry of an index whose request yields no bar has every numeric field null
  and status \<open>no_data\<close>; the entry of an index whose request raises has every numeric
  field null and status \<open>error\<close>. The entry of an index is decided by the outcome of
  its own request alone: changing what the other requests do leaves it as it is.
\<close>

theorem fetch_indian_indices_one_entry_each:
  "\<exists>d. fetch_indian_indices ticker_history = Inr d \<and>
     map fst d = [''nifty'', ''sensex'', ''banknifty'', ''midcap_nifty''] \<and>
     (\<forall>(index_name, symb) \<in> set INDIAN_INDICES.
        (\<forall>hist. ticker_history symb = Inr hist \<and> bars hist = [] \<longrightarrow>
           map_of d index_name =
             Some \<lparr>symbol = symb, name = display_name index_name, current_price = None,
                   previous_close = None, change = None, change_percent = None,
                   volume = None, status = no_data\<rparr>) \<and>
        (\<forall>e. ticker_history symb = Inl e \<longrightarrow>
           map_of d index_name =
             Some \<lparr>symbol = symb, name = display_name index_name, current_price = None,
                   previous_close = None, change = None, change_percent = None,
                   volume = None, status = error\<rparr>) \<and>
        (\<forall>other. other symb = ticker_history symb \<longrightarrow>
           (\<exists>d'. fetch_indian_indices other = Inr d' \<and> map_of d' index_name = map_of d index_name)))"
proof -
  let ?entry = "\<lambda>d index_name symb.
        (\<forall>hist. ticker_history symb = Inr hist \<and> bars hist = [] \<longrightarrow>
           map_of d index_name =
             Some \<lparr>symbol = symb, name = display_name index_name, current_price = None,
                   previous_close = None, change = None, change_percent = None,
                   volume = None, status = no_data\<rparr>) \<and>
        (\<forall>e. ticker_history symb = Inl e \<longrightarrow>
           map_of d index_name =
             Some \<lparr>symbol = symb, name = display_name index_name, current_price = None,
                   previous_close = None, change = None, change_percent = None,
                   volume = None, status = error\<rparr>) \<and>
        (\<forall>other. other symb = ticker_history symb \<longrightarrow>
           (\<exists>d'. fetch_indian_indices other = Inr d' \<and> map_of d' index_name = map_of d index_name))"
  obtain d where d: "fetch_indian_indices ticker_history = Inr d"
    by (simp add: fetch_indian_indices_unfold)
  have keys: "map fst d = [''nifty'', ''sensex'', ''banknifty'', ''midcap_nifty'']"
    using d by (auto simp: fetch_indian_indices_unfold)
  have each: "?entry d index_name symb"
    if p: "(index_name, symb) \<in> set INDIAN_INDICES" for index_name symb
  proof -
    have look: "map_of d index_name = Some (index_snapshot ticker_history index_name symb)"
      using fetch_indian_indices_lookup [OF p, of ticker_history] d by simp
    have empty: "ticker_history symb = Inr hist \<and> bars hist = [] \<longrightarrow>
        map_of d index_name = Some (blank_snapshot index_name symb no_data)" for hist
      by (simp add: look index_snapshot_no_bars)
    have raise: "ticker_history symb = Inl e \<longrightarrow>
        map_of d index_name = Some (blank_snapshot index_name symb error)" for e
      by (simp add: look index_snapshot_raise)
    have alone: "other symb = ticker_history symb \<longrightarrow>
        (\<exists>d'. fetch_indian_indices other = Inr d' \<and> map_of d' index_name = map_of d index_name)"
      for other
      using fetch_indian_indices_lookup [OF p, of other]
        index_snapshot_cong [of other symb ticker_history index_name]
      by (auto simp: look)
    show ?thesis
      using empty raise alone unfolding blank_snapshot_def by blast
  qed
  have all: "\<forall>(index_name, symb) \<in> set INDIAN_INDICES. ?entry d index_name symb"
  proof (intro ballI)
    fix p assume pin: "p \<in> set INDIAN_INDICES"
    obtain a b where pe: "p = (a, b)"
      by (cases p)
    from pin pe have "(a, b) \<in> set INDIAN_INDICES"
      by simp
    from each [OF this] show "case p of (index_name, symb) \<Rightarrow> ?entry d index_name symb"
      unfolding pe prod.case .
  qed
  show ?thesis
    by (rule exI [of _ d], intro conjI) (rule d, rule keys, rule all)
qed

theorem fetch_indian_indices_one_entry_each_witness:
  "\<exists>d. fetch_indian_indices history_example = Inr d \<and>
     map fst d = [''nifty'', ''sensex'', ''banknifty'', ''midcap_nifty''] \<and>
     map_of d ''nifty'' =
       Some \<lparr>symbol = ''^NSEI'', name = ''Nifty'', current_price = None,
             previous_close = None, change = None, change_percent = None,
             volume = None, status = error\<rparr> \<and>
     map_of d ''sensex'' =
       Some \<lparr>symbol = ''^BSESN'', name = ''Sensex'', current_price = None,
             previous_close = None, change = None, change_percent = None,
             volume = None, status = no_data\<rparr>"
proof -
  from fetch_indian_indices_one_entry_each [of history_example]
  obtain d where d: "fetch_indian_indices history_example = Inr d"
    and keys: "map fst d = [''nifty'', ''sensex'', ''banknifty'', ''midcap_nifty'']"
    and each: "\<forall>(index_name, symb) \<in> set INDIAN_INDICES.
        (\<forall>hist. history_example symb = Inr hist \<and> bars hist = [] \<longrightarrow>
           map_of d index_name =
             Some \<lparr>symbol = symb, name = display_name index_name, current_price = None,
                   previous_close = None, change = None, change_percent = None,
                   volume = None, status = no_data\<rparr>) \<and>
        (\<forall>e. history_example symb = Inl e \<longrightarrow>
           map_of d index_name =
             Some \<lparr>symbol = symb, name = display_name index_name, current_price = None,
                   previous_close = None, change = None, change_percent = None,
                   volume = None, status = error\<rparr>) \<and>
        (\<forall>other. other symb = history_example symb \<longrightarrow>
           (\<exists>d'. fetch_indian_indices other = Inr d' \<and> map_of d' index_name = map_of d index_name))"
    by (elim exE conjE) (rule that)
  have nifty: "(''nifty'', ''^NSEI'') \<in> set INDIAN_INDICES"
    and sensex: "(''sensex'', ''^BSESN'') \<in> set INDIAN_INDICES"
    by (simp_all add: INDIAN_INDICES_def)
  have raises: "history_example ''^NSEI'' = Inl UpstreamError"
    and empty: "history_example ''^BSESN'' = Inr \<lparr>has_Volume = True, bars = []\<rparr>
                  \<and> bars \<lparr>has_Volume = True, bars = []\<rparr> = []"
    by (simp_all add: history_example_def)
  from bspec [OF each nifty]
  have "\<forall>e. history_example ''^NSEI'' = Inl e \<longrightarrow>
           map_of d ''nifty'' =
             Some \<lparr>symbol = ''^NSEI'', name = display_name ''nifty'', current_price = None,
                   previous_close = None, change = None, change_percent = None,
                   volume = None, status = error\<rparr>"
    unfolding prod.case by (elim conjE)
  with raises have one: "map_of d ''nifty'' =
       Some \<lparr>symbol = ''^NSEI'', name = ''Nifty'', current_price = None,
             previous_close = None, change = None, change_percent = None,
             volume = None, status = error\<rparr>"
    by (simp add: display_name_examples)
  from bspec [OF each sensex]
  have "\<forall>hist. history_example ''^BSESN'' = Inr hist \<and> bars hist = [] \<longrightarrow>
           map_of d ''sensex'' =
             Some \<lparr>symbol = ''^BSESN'', name = display_name ''sensex'', current_price = None,
                   previous_close = None, change = None, change_percent = None,
                   volume = None, status = no_data\<rparr>"
    unfolding prod.case by (elim conjE)
  with empty have two: "map_of d ''sensex'' =
       Some \<lparr>symbol = ''^BSESN'', name = ''Sensex'', current_price = None,
             previous_close = None, change = None, change_percent = None,
             volume = None, status = no_data\<rparr>"
    unfolding display_name_examples by blast
  show ?thesis
    by (rule exI [of _ d], intro conjI) (rule d, rule keys, rule one, rule two)
qed

lemma index_snapshot_two_or_more:
  assumes "th symb = Inr hist" and "2 \<le> length (bars hist)"
  shows "index_snapshot th index_name symb =
    (let cur = Close (last (bars hist)); prev = Close (bars hist ! (length (bars hist) - 2))
     in \<lparr>symbol = symb, name = display_name index_name,
          current_price = Some (py_round2 cur),
          previous_close = Some (py_round2 prev),
          change = Some (py_round2 (fsub cur prev)),
          change_percent =
            Some (py_round2 (if prev \<noteq> Finite 0 then fmul100 (fdiv (fsub cur prev) prev)
                             else Finite 0)),
          volume = Some (if has_Volume hist then Volume (last (bars hist)) else 0),
          status = live_data\<rparr>)"
  by (simp add: index_snapshot_def index_try_two_or_more [of th symb hist index_name, OF assms] Let_def)

lemma history_example_unfold:
  "fetch_indian_indices history_example =
     Inr [(''nifty'',
           \<lparr>symbol = ''^NSEI'', name = ''Nifty'', current_price = None,
            previous_close = None, change = None, change_percent = None,
            volume = None, status = error\<rparr>),
          (''sensex'',
           \<lparr>symbol = ''^BSESN'', name = ''Sensex'', current_price = None,
            previous_close = None, change = None, change_percent = None,
            volume = None, status = no_data\<rparr>),
          (''banknifty'',
           \<lparr>symbol = ''^NSEBANK'', name = ''Banknifty'',
            current_price = Some (to_double (253 / 50)),
            previous_close = Some (Finite 4), change = Some (to_double (53 / 50)),
            change_percent = Some (to_double (664 / 25)), volume = Some 9,
            status = live_data\<rparr>),
          (''midcap_nifty'',
           \<lparr>symbol = ''NIFTYMIDCAP50.NS'', name = ''Midcap Nifty'',
            current_price = Some (Finite 3), previous_close = Some (Finite 0),
            change = Some (Finite 3), change_percent = Some (Finite 0),
            volume = Some 0, status = live_data\<rparr>)]"
  by code_simp

lemma double_examples:
  "to_double (53 / 50) \<noteq> Finite (81 / 16 - 4)"
  "to_double (664 / 25) \<noteq> Finite (100 * (81 / 16 - 4) / 4)"
  "py_round2 (fsub (Close \<lparr>Close = Finite 20003, Volume = 9\<rparr>)
     (Close \<lparr>Close = Finite 20000, Volume = 7\<rparr>)) = Finite 3"
  "py_round2 (fmul100 (fdiv
     (fsub (Close \<lparr>Close = Finite 20003, Volume = 9\<rparr>)
        (Close \<lparr>Close = Finite 20000, Volume = 7\<rparr>))
     (Close \<lparr>Close = Finite 20000, Volume = 7\<rparr>))) = to_double (1 / 100)"
  "to_double (1 / 100) \<noteq> to_double (1 / 50)"
  by code_simp+

text \<open>
  C3, as the code has it. For an index whose request returns exactly two bars, with
  previous close \<open>P \<noteq> 0\<close> and current close \<open>C\<close>, the entry has status
  \<open>live_data\<close>; its \<open>change\<close> is \<^verbatim>\<open>round(C - P, 2)\<close> and its \<open>change_percent\<close>
  is \<^verbatim>\<open>round(((C - P) / P) * 100, 2)\<close>, where the subtraction, the division, the
  product and the rounding to two decimals are the operations on doubles: each
  returns the double nearest to its exact result. When \<open>C - P\<close> is itself a double,
  \<open>change\<close> is the double nearest to \<open>C - P\<close> rounded to two decimals. For
  finite figures, the computed difference is within a relative \<open>2^-53\<close> of
  \<open>C - P\<close>, and \<open>change\<close> is within 0.005 of the computed difference, up to
  one more rounding to a double.
\<close>

theorem two_bars_rounded_change:
  assumes "(index_name, symb) \<in> set INDIAN_INDICES"
    and "ticker_history symb = Inr hist"
    and "bars hist = [prev, cur]"
    and "Close prev \<noteq> Finite 0"
  shows "\<exists>d s. fetch_indian_indices ticker_history = Inr d \<and>
           map_of d index_name = Some s \<and>
           change s = Some (py_round2 (fsub (Close cur) (Close prev))) \<and>
           change_percent s =
             Some (py_round2 (fmul100 (fdiv (fsub (Close cur) (Close prev)) (Close prev)))) \<and>
           status s = live_data \<and>
           (\<forall>P C. Close prev = Finite P \<and> Close cur = Finite C \<and>
              to_double (C - P) = Finite (C - P) \<longrightarrow>
              change s = Some (to_double (round2 (C - P)))) \<and>
           (\<forall>P C dif chg. Close prev = Finite P \<and> Close cur = Finite C \<and>
              fsub (Close cur) (Close prev) = Finite dif \<and> change s = Some (Finite chg) \<longrightarrow>
              \<bar>dif - (C - P)\<bar> \<le> \<bar>C - P\<bar> / 2 ^ 53 + 1 / 2 ^ 1075 \<and>
              \<bar>chg - dif\<bar> \<le> 1 / 200 + \<bar>round2 dif\<bar> / 2 ^ 53 + 1 / 2 ^ 1075)"
proof -
  from fetch_indian_indices_lookup [OF assms(1), of ticker_history]
  obtain d where d: "fetch_indian_indices ticker_history = Inr d"
    and look: "map_of d index_name = Some (index_snapshot ticker_history index_name symb)"
    by blast
  have len: "2 \<le> length (bars hist)"
    by (simp add: assms(3))
  have snap: "index_snapshot ticker_history index_name symb =
      \<lparr>symbol = symb, name = display_name index_name,
       current_price = Some (py_round2 (Close cur)),
       previous_close = Some (py_round2 (Close prev)),
       change = Some (py_round2 (fsub (Close cur) (Close prev))),
       change_percent =
         Some (py_round2 (fmul100 (fdiv (fsub (Close cur) (Close prev)) (Close prev)))),
       volume = Some (if has_Volume hist then Volume cur else 0),
       status = live_data\<rparr>"
    using assms(3,4)
    by (simp add: index_snapshot_two_or_more [of ticker_history symb hist index_name, OF assms(2) len] Let_def)
  have near: "\<bar>dif - (C - P)\<bar> \<le> \<bar>C - P\<bar> / 2 ^ 53 + 1 / 2 ^ 1075 \<and>
      \<bar>chg - dif\<bar> \<le> 1 / 200 + \<bar>round2 dif\<bar> / 2 ^ 53 + 1 / 2 ^ 1075"
    if "Close prev = Finite P" and "Close cur = Finite C"
      and "fsub (Close cur) (Close prev) = Finite dif"
      and "py_round2 (fsub (Close cur) (Close prev)) = Finite chg" for P C dif chg
  proof -
    from that(1-3) have "to_double (C - P) = Finite dif"
      by simp
    then have one: "\<bar>dif - (C - P)\<bar> \<le> \<bar>C - P\<bar> / 2 ^ 53 + 1 / 2 ^ 1075"
      by (rule to_double_close)
    from that(3,4) have "to_double (round2 dif) = Finite chg"
      by simp
    then have "\<bar>chg - round2 dif\<bar> \<le> \<bar>round2 dif\<bar> / 2 ^ 53 + 1 / 2 ^ 1075"
      by (rule to_double_close)
    with round2_error [of dif]
    have two: "\<bar>chg - dif\<bar> \<le> 1 / 200 + \<bar>round2 dif\<bar> / 2 ^ 53 + 1 / 2 ^ 1075"
      by linarith
    from one two show ?thesis ..
  qed
  have chg: "change (index_snapshot ticker_history index_name symb) =
      Some (py_round2 (fsub (Close cur) (Close prev)))"
    and pct: "change_percent (index_snapshot ticker_history index_name symb) =
      Some (py_round2 (fmul100 (fdiv (fsub (Close cur) (Close prev)) (Close prev))))"
    and st: "status (index_snapshot ticker_history index_name symb) = live_data"
    by (simp_all add: snap)
  have exact: "change (index_snapshot ticker_history index_name symb) =
      Some (to_double (round2 (C - P)))"
    if "Close prev = Finite P \<and> Close cur = Finite C \<and> to_double (C - P) = Finite (C - P)"
    for P C
    using that by (simp add: chg)
  have bound: "\<bar>dif - (C - P)\<bar> \<le> \<bar>C - P\<bar> / 2 ^ 53 + 1 / 2 ^ 1075 \<and>
      \<bar>chg - dif\<bar> \<le> 1 / 200 + \<bar>round2 dif\<bar> / 2 ^ 53 + 1 / 2 ^ 1075"
    if "Close prev = Finite P \<and> Close cur = Finite C \<and>
        fsub (Close cur) (Close prev) = Finite dif \<and>
        change (index_snapshot ticker_history index_name symb) = Some (Finite chg)"
    for P C dif chg
  proof -
    from that have a: "Close prev = Finite P" and b: "Close cur = Finite C"
      and c: "fsub (Close cur) (Close prev) = Finite dif"
      and e: "change (index_snapshot ticker_history index_name symb) = Some (Finite chg)"
      by blast+
    from e chg have "py_round2 (fsub (Close cur) (Close prev)) = Finite chg"
      by simp
    then show ?thesis
      by (rule near [OF a b c])
  qed
  show ?thesis
    using d look chg pct st exact bound by blast
qed

theorem two_bars_rounded_change_witness:
  "\<exists>d s. fetch_indian_indices history_close = Inr d \<and>
     map_of d ''nifty'' = Some s \<and>
     change s = Some (Finite 3) \<and> change_percent s = Some (to_double (1 / 100)) \<and>
     status s = live_data"
proof -
  have idx: "(''nifty'', ''^NSEI'') \<in> set INDIAN_INDICES"
    by (simp add: INDIAN_INDICES_def)
  have req: "history_close ''^NSEI'' =
      Inr \<lparr>has_Volume = True,
           bars = [\<lparr>Close = Finite 20000, Volume = 7\<rparr>,
                   \<lparr>Close = Finite 20003, Volume = 9\<rparr>]\<rparr>"
    by (simp add: history_close_def)
  have two: "bars \<lparr>has_Volume = True,
           bars = [\<lparr>Close = Finite 20000, Volume = 7\<rparr>,
                   \<lparr>Close = Finite 20003, Volume = 9\<rparr>]\<rparr> =
      [\<lparr>Close = Finite 20000, Volume = 7\<rparr>, \<lparr>Close = Finite 20003, Volume = 9\<rparr>]"
    by simp
  have nz: "Close \<lparr>Close = Finite 20000, Volume = 7\<rparr> \<noteq> Finite 0"
    by simp
  from two_bars_rounded_change [of "''nifty''" "''^NSEI''" history_close _ _ _, OF idx req two nz]
  obtain d s where "fetch_indian_indices history_close = Inr d"
    and "map_of d ''nifty'' = Some s"
    and "change s = Some (py_round2 (fsub (Close \<lparr>Close = Finite 20003, Volume = 9\<rparr>)
           (Close \<lparr>Close = Finite 20000, Volume = 7\<rparr>)))"
    and "change_percent s = Some (py_round2 (fmul100 (fdiv
           (fsub (Close \<lparr>Close = Finite 20003, Volume = 9\<rparr>)
              (Close \<lparr>Close = Finite 20000, Volume = 7\<rparr>))
           (Close \<lparr>Close = Finite 20000, Volume = 7\<rparr>))))"
    and "status s = live_data"
    by (elim exE conjE) (rule that)
  then show ?thesis
    unfolding double_examples by blast
qed

text \<open>
  The claim as written (\<open>change = C - P\<close>, \<open>changePercent = 100 (C - P) / P\<close>)
  fails: with \<open>P = 4\<close> and \<open>C = 5.0625\<close> the entry of \<open>banknifty\<close> holds the
  doubles nearest to 1.06 and 26.56, not 1.0625 and 26.5625.
\<close>

theorem two_bars_exact_change_counterexample:
  "fetch_indian_indices history_example =
     Inr [(''nifty'',
           \<lparr>symbol = ''^NSEI'', name = ''Nifty'', current_price = None,
            previous_close = None, change = None, change_percent = None,
            volume = None, status = error\<rparr>),
          (''sensex'',
           \<lparr>symbol = ''^BSESN'', name = ''Sensex'', current_price = None,
            previous_close = None, change = None, change_percent = None,
            volume = None, status = no_data\<rparr>),
          (''banknifty'',
           \<lparr>symbol = ''^NSEBANK'', name = ''Banknifty'',
            current_price = Some (to_double (253 / 50)),
            previous_close = Some (Finite 4), change = Some (to_double (53 / 50)),
            change_percent = Some (to_double (664 / 25)), volume = Some 9,
            status = live_data\<rparr>),
          (''midcap_nifty'',
           \<lparr>symbol = ''NIFTYMIDCAP50.NS'', name = ''Midcap Nifty'',
            current_price = Some (Finite 3), previous_close = Some (Finite 0),
            change = Some (Finite 3), change_percent = Some (Finite 0),
            volume = Some 0, status = live_data\<rparr>)] \<and>
   history_example ''^NSEBANK'' =
     Inr \<lparr>has_Volume = True,
          bars = [\<lparr>Close = Finite 4, Volume = 7\<rparr>,
                  \<lparr>Close = Finite (81 / 16), Volume = 9\<rparr>]\<rparr> \<and>
   to_double (53 / 50) \<noteq> Finite (81 / 16 - 4) \<and>
   to_double (664 / 25) \<noteq> Finite (100 * (81 / 16 - 4) / 4)"
  by (simp only: history_example_unfold double_examples simp_thms)
    (simp add: history_example_def)

text \<open>
  C4. For an index whose request returns at least two bars, the previous close being
  exactly 0, the statements of the inner \<^verbatim>\<open>try\<close> end without an exception (the
  division is guarded, so no \<open>ZeroDivisionError\<close>), and the entry has
  \<open>change_percent = 0\<close> and status \<open>live_data\<close>.
\<close>

theorem previous_close_zero_no_division:
  assumes "(index_name, symb) \<in> set INDIAN_INDICES"
    and "ticker_history symb = Inr hist"
    and "2 \<le> length (bars hist)"
    and "Close (bars hist ! (length (bars hist) - 2)) = Finite 0"
  shows "\<exists>d s. index_try ticker_history index_name symb = Inr s \<and>
           fetch_indian_indices ticker_history = Inr d \<and>
           map_of d index_name = Some s \<and>
           change_percent s = Some (Finite 0) \<and> status s = live_data"
proof -
  from fetch_indian_indices_lookup [OF assms(1), of ticker_history]
  obtain d where d: "fetch_indian_indices ticker_history = Inr d"
    and look: "map_of d index_name = Some (index_snapshot ticker_history index_name symb)"
    by blast
  from index_try_two_or_more [of ticker_history symb hist index_name, OF assms(2,3)]
  obtain s where s: "index_try ticker_history index_name symb = Inr s"
    and pct: "change_percent s = Some (Finite 0)" and st: "status s = live_data"
    by (simp add: Let_def assms(4) to_double_round2_zero)
  from s have "index_snapshot ticker_history index_name symb = s"
    by (simp add: index_snapshot_def)
  with d look s pct st show ?thesis
    by simp
qed

theorem previous_close_zero_no_division_witness:
  "\<exists>d s. index_try history_example ''midcap_nifty'' ''NIFTYMIDCAP50.NS'' = Inr s \<and>
     fetch_indian_indices history_example = Inr d \<and>
     map_of d ''midcap_nifty'' = Some s \<and>
     change_percent s = Some (Finite 0) \<and> status s = live_data"
proof -
  have idx: "(''midcap_nifty'', ''NIFTYMIDCAP50.NS'') \<in> set INDIAN_INDICES"
    by (simp add: INDIAN_INDICES_def)
  have req: "history_example ''NIFTYMIDCAP50.NS'' =
      Inr \<lparr>has_Volume = False,
           bars = [\<lparr>Close = Finite 0, Volume = 1\<rparr>, \<lparr>Close = Finite 3, Volume = 2\<rparr>]\<rparr>"
    by (simp add: history_example_def)
  have len: "2 \<le> length (bars \<lparr>has_Volume = False,
           bars = [\<lparr>Close = Finite 0, Volume = 1\<rparr>, \<lparr>Close = Finite 3, Volume = 2\<rparr>]\<rparr>)"
    by simp
  have zero: "Close (bars \<lparr>has_Volume = False,
           bars = [\<lparr>Close = Finite 0, Volume = 1\<rparr>, \<lparr>Close = Finite 3, Volume = 2\<rparr>]\<rparr> !
         (length (bars \<lparr>has_Volume = False,
           bars = [\<lparr>Close = Finite 0, Volume = 1\<rparr>, \<lparr>Close = Finite 3, Volume = 2\<rparr>]\<rparr>) - 2)) =
       Finite 0"
    by simp
  show ?thesis
    by (rule previous_close_zero_no_division
        [of "''midcap_nifty''" "''NIFTYMIDCAP50.NS''" history_example _, OF idx req len zero])
qed

section \<open>Properties of the gainers and losers\<close>

lemma sorted_negated_key:
  "sorted (map (\<lambda>r. - f r) xs) = sorted_wrt (\<lambda>a b. (f b :: rat) \<le> f a) xs"
  by (simp add: sorted_wrt_map)

lemma sort_values_rows:
  assumes "sort_values data ascending = Inr data_sorted"
  shows "set (rows data_sorted) = set (rows data)"
    and "ascending \<Longrightarrow> sorted (map regularMarketChangePercent (rows data_sorted))"
    and "\<not> ascending \<Longrightarrow>
           sorted_wrt (\<lambda>a b. regularMarketChangePercent b \<le> regularMarketChangePercent a)
             (rows data_sorted)"
    and "columns data_sorted = columns data"
proof -
  from assms have eq: "data_sorted = data\<lparr>rows :=
         (if ascending then sort_key regularMarketChangePercent (rows data)
          else sort_key (\<lambda>r. - regularMarketChangePercent r) (rows data))\<rparr>"
    by (simp add: sort_values_def split: if_splits)
  show "set (rows data_sorted) = set (rows data)"
    by (simp add: eq)
  show "columns data_sorted = columns data"
    by (simp add: eq)
  show "sorted (map regularMarketChangePercent (rows data_sorted))" if ascending
    using that by (simp add: eq)
  show "sorted_wrt (\<lambda>a b. regularMarketChangePercent b \<le> regularMarketChangePercent a)
          (rows data_sorted)" if "\<not> ascending"
  proof -
    have "sorted (map (\<lambda>r. - regularMarketChangePercent r)
            (sort_key (\<lambda>r. - regularMarketChangePercent r) (rows data)))"
      by (rule sorted_sort_key)
    then have "sorted_wrt (\<lambda>a b. regularMarketChangePercent b \<le> regularMarketChangePercent a)
            (sort_key (\<lambda>r. - regularMarketChangePercent r) (rows data))"
      by (simp only: sorted_negated_key)
    with that show ?thesis
      by (simp add: eq)
  qed
qed

lemma top_frame_rows:
  assumes "top_frame screen region_filter gainers = Inr topf"
  shows "\<exists>data. screen (build_filters region_filter gainers) = Inr data \<and>
           set (rows topf) \<subseteq> set (rows data)"
    and "length (rows topf) \<le> 5"
    and "\<not> gainers \<Longrightarrow> sorted (map regularMarketChangePercent (rows topf))"
    and "gainers \<Longrightarrow>
           sorted_wrt (\<lambda>a b. regularMarketChangePercent b \<le> regularMarketChangePercent a)
             (rows topf)"
proof -
  from assms obtain data data_sorted
    where data: "screen (build_filters region_filter gainers) = Inr data"
      and srt: "sort_values data (\<not> gainers) = Inr data_sorted"
      and topf: "topf = head 5 data_sorted"
    by (auto simp: top_frame_def bind_exn_def split: sum.splits)
  have rows_top: "rows topf = take 5 (rows data_sorted)"
    by (simp add: topf head_def)
  show "\<exists>data. screen (build_filters region_filter gainers) = Inr data \<and>
          set (rows topf) \<subseteq> set (rows data)"
    using data sort_values_rows(1) [OF srt] set_take_subset [of 5 "rows data_sorted"]
    by (auto simp: rows_top)
  show "length (rows topf) \<le> 5"
    by (simp add: rows_top)
  show "sorted (map regularMarketChangePercent (rows topf))" if "\<not> gainers"
    using sort_values_rows(2) [OF srt] that
    by (simp add: rows_top sorted_wrt_map)
  show "sorted_wrt (\<lambda>a b. regularMarketChangePercent b \<le> regularMarketChangePercent a)
          (rows topf)" if gainers
    using sort_values_rows(3) [OF srt] that
    by (simp add: rows_top)
qed

lemma fetch_top_stocks_cases:
  "fetch_top_stocks screen region_filter gainers = Inr [] \<or>
   (\<exists>topf. top_frame screen region_filter gainers = Inr topf \<and>
      fetch_top_stocks screen region_filter gainers = Inr (map to_record (rows topf)))"
  by (auto simp: fetch_top_stocks_def try_except_def bind_exn_def select_records_def
      split: sum.splits)

lemma honours_build_filters:
  assumes "honours (build_filters region_filter gainers) rs" and "r \<in> set rs"
  shows "(if gainers then 3 < regularMarketChangePercent r
          else regularMarketChangePercent r < - (5 / 2)) \<and>
         (if region_filter = None then 2000000000 else 1000000000) < intradaymarketcap r \<and>
         (if region_filter = None then 5 else 10) < regularMarketPrice r \<and>
         1000 < regularMarketVolume r \<and>
         (\<forall>x. region_filter = Some x \<and> x \<noteq> [] \<longrightarrow> region r = x)"
proof -
  have each: "\<forall>f \<in> set (build_filters region_filter gainers). satisfies f r"
    using assms by (simp add: honours_def list_all_iff)
  have "satisfies (if gainers then (OpGt, ''percentchange'', Num 3)
                   else (OpLt, ''percentchange'', Num (- (5 / 2)))) r"
    using each by (simp add: build_filters_def Let_def split: option.splits if_splits)
  then have pct: "if gainers then 3 < regularMarketChangePercent r
      else regularMarketChangePercent r < - (5 / 2)"
    by (simp add: numeric_field_def split: if_splits)
  have "satisfies (OpGt, ''intradaymarketcap'',
          Num (if region_filter = None then 2000000000 else 1000000000)) r"
    using each by (simp add: build_filters_def Let_def split: option.splits if_splits)
  then have cap: "(if region_filter = None then 2000000000 else 1000000000) < intradaymarketcap r"
    by (simp add: numeric_field_def split: if_splits)
  have "satisfies (OpGt, ''intradayprice'', Num (if region_filter = None then 5 else 10)) r"
    using each by (simp add: build_filters_def Let_def split: option.splits if_splits)
  then have prc: "(if region_filter = None then 5 else 10) < regularMarketPrice r"
    by (simp add: numeric_field_def split: if_splits)
  have "satisfies (OpGt, ''dayvolume'', Num 1000) r"
    using each by (simp add: build_filters_def Let_def split: option.splits if_splits)
  then have vol: "1000 < regularMarketVolume r"
    by (simp add: numeric_field_def)
  have reg: "region r = x" if "region_filter = Some x" and "x \<noteq> []" for x
  proof -
    have "satisfies (OpEq, ''region'', Str x) r"
      using each that by (simp add: build_filters_def Let_def)
    then show ?thesis
      by simp
  qed
  from pct cap prc vol reg show ?thesis
    by blast
qed


lemma screen_example_honours:
  "screen_example filters = Inr data \<Longrightarrow> honours filters (rows data)"
  by (auto simp: screen_example_def honours_def list_all_iff)

lemma top_stocks_examples:
  "fetch_top_stocks screen_example (Some ''in'') True =
     Inr [\<lparr>stock_symbol = ''BBB'', price = 20, percent_change = 9, day_volume = 5000\<rparr>,
          \<lparr>stock_symbol = ''FFF'', price = 20, percent_change = 8, day_volume = 5000\<rparr>,
          \<lparr>stock_symbol = ''EEE'', price = 20, percent_change = 7, day_volume = 5000\<rparr>,
          \<lparr>stock_symbol = ''CCC'', price = 20, percent_change = 6, day_volume = 5000\<rparr>,
          \<lparr>stock_symbol = ''DDD'', price = 20, percent_change = 5, day_volume = 5000\<rparr>]"
  "fetch_top_stocks screen_unfiltered None False =
     Inr [\<lparr>stock_symbol = ''III'', price = 20, percent_change = - 3, day_volume = 5000\<rparr>,
          \<lparr>stock_symbol = ''HHH'', price = 20, percent_change = 1, day_volume = 5000\<rparr>,
          \<lparr>stock_symbol = ''AAA'', price = 20, percent_change = 4, day_volume = 5000\<rparr>,
          \<lparr>stock_symbol = ''DDD'', price = 20, percent_change = 5, day_volume = 5000\<rparr>,
          \<lparr>stock_symbol = ''CCC'', price = 20, percent_change = 6, day_volume = 5000\<rparr>]"
  by code_simp+

text \<open>
  C1, as the code has it. Every call of \<^verbatim>\<open>fetch_top_stocks\<close> returns (it does not
  raise) a list of at most 5 rows, sorted by percent change, descending for gainers
  and ascending for losers. The code sends the filters and never checks a row itself.
  For a call with no region filter or with a non-empty one, when the endpoint answers
  the query with rows that all satisfy the filters it was sent, the list is empty or
  it is the list of the records of rows of that answer, each with percent change
  above 3 (gainers) or below -2.5 (losers), market capitalisation above 2e9 (no region
  filter) or 1e9 (a region filter), price above 5 (no region filter) or 10 (a region
  filter), volume above 1000, and region equal to the filter when one is set.
\<close>

theorem fetch_top_stocks_sorted_capped_filtered:
  "\<exists>result. fetch_top_stocks screen region_filter gainers = Inr result \<and>
     length result \<le> 5 \<and>
     (if gainers then sorted_wrt (\<lambda>a b. b \<le> a) (map percent_change result)
      else sorted (map percent_change result)) \<and>
     (region_filter \<noteq> Some [] \<and>
      (\<forall>data. screen (build_filters region_filter gainers) = Inr data \<longrightarrow>
          honours (build_filters region_filter gainers) (rows data)) \<longrightarrow>
      result = [] \<or>
      (\<exists>data topf. screen (build_filters region_filter gainers) = Inr data \<and>
         top_frame screen region_filter gainers = Inr topf \<and>
         set (rows topf) \<subseteq> set (rows data) \<and>
         result = map to_record (rows topf) \<and>
         (\<forall>r \<in> set (rows topf).
            (if gainers then 3 < regularMarketChangePercent r
             else regularMarketChangePercent r < - (5 / 2)) \<and>
            (if region_filter = None then 2000000000 else 1000000000) < intradaymarketcap r \<and>
            (if region_filter = None then 5 else 10) < regularMarketPrice r \<and>
            1000 < regularMarketVolume r \<and>
            (\<forall>x. region_filter = Some x \<longrightarrow> region r = x))))"
proof -
  consider (none) "fetch_top_stocks screen region_filter gainers = Inr []"
    | (some) topf where "top_frame screen region_filter gainers = Inr topf"
        and "fetch_top_stocks screen region_filter gainers = Inr (map to_record (rows topf))"
    using fetch_top_stocks_cases [of screen region_filter gainers] by blast
  then show ?thesis
  proof cases
    case none
    then show ?thesis
      by simp
  next
    case some
    note facts = top_frame_rows [OF some(1)]
    have len: "length (map to_record (rows topf)) \<le> 5"
      using facts(2) by simp
    have ord: "if gainers
        then sorted_wrt (\<lambda>a b. b \<le> a) (map percent_change (map to_record (rows topf)))
        else sorted (map percent_change (map to_record (rows topf)))"
      using facts(3,4) by (simp add: sorted_wrt_map to_record_def)
    have flt: "map to_record (rows topf) = [] \<or>
      (\<exists>data topf'. screen (build_filters region_filter gainers) = Inr data \<and>
         top_frame screen region_filter gainers = Inr topf' \<and>
         set (rows topf') \<subseteq> set (rows data) \<and>
         map to_record (rows topf) = map to_record (rows topf') \<and>
         (\<forall>r \<in> set (rows topf').
            (if gainers then 3 < regularMarketChangePercent r
             else regularMarketChangePercent r < - (5 / 2)) \<and>
            (if region_filter = None then 2000000000 else 1000000000) < intradaymarketcap r \<and>
            (if region_filter = None then 5 else 10) < regularMarketPrice r \<and>
            1000 < regularMarketVolume r \<and>
            (\<forall>x. region_filter = Some x \<longrightarrow> region r = x)))"
      if hyp: "region_filter \<noteq> Some [] \<and>
        (\<forall>data. screen (build_filters region_filter gainers) = Inr data \<longrightarrow>
          honours (build_filters region_filter gainers) (rows data))"
    proof -
      from facts(1) obtain data
        where data: "screen (build_filters region_filter gainers) = Inr data"
          and sub: "set (rows topf) \<subseteq> set (rows data)"
        by blast
      from hyp data have h: "honours (build_filters region_filter gainers) (rows data)"
        by blast
      have "(if gainers then 3 < regularMarketChangePercent r
             else regularMarketChangePercent r < - (5 / 2)) \<and>
            (if region_filter = None then 2000000000 else 1000000000) < intradaymarketcap r \<and>
            (if region_filter = None then 5 else 10) < regularMarketPrice r \<and>
            1000 < regularMarketVolume r \<and>
            (\<forall>x. region_filter = Some x \<longrightarrow> region r = x)"
        if "r \<in> set (rows topf)" for r
        using honours_build_filters [OF h, of r] that sub hyp by blast
      with data sub some(1) show ?thesis
        by blast
    qed
    show ?thesis
      by (rule exI [of _ "map to_record (rows topf)"], intro conjI impI)
        (rule some(2), rule len, rule ord, rule flt)
  qed
qed

theorem fetch_top_stocks_sorted_capped_filtered_witness:
  "\<exists>data topf. screen_example (build_filters (Some ''in'') True) = Inr data \<and>
     top_frame screen_example (Some ''in'') True = Inr topf \<and>
     set (rows topf) \<subseteq> set (rows data) \<and>
     fetch_top_stocks screen_example (Some ''in'') True = Inr (map to_record (rows topf)) \<and>
     length (rows topf) = 5 \<and>
     list_all (\<lambda>r. 3 < regularMarketChangePercent r \<and> 1000000000 < intradaymarketcap r \<and>
                  10 < regularMarketPrice r \<and> 1000 < regularMarketVolume r \<and>
                  region r = ''in'') (rows topf)"
proof -
  have hyp: "Some ''in'' \<noteq> Some [] \<and>
      (\<forall>data. screen_example (build_filters (Some ''in'') True) = Inr data \<longrightarrow>
        honours (build_filters (Some ''in'') True) (rows data))"
    by (simp add: screen_example_honours)
  from fetch_top_stocks_sorted_capped_filtered [of screen_example "Some ''in''" True]
  obtain result
    where res: "fetch_top_stocks screen_example (Some ''in'') True = Inr result"
      and flt: "Some ''in'' \<noteq> Some [] \<and>
        (\<forall>data. screen_example (build_filters (Some ''in'') True) = Inr data \<longrightarrow>
          honours (build_filters (Some ''in'') True) (rows data)) \<longrightarrow>
        result = [] \<or>
        (\<exists>data topf. screen_example (build_filters (Some ''in'') True) = Inr data \<and>
           top_frame screen_example (Some ''in'') True = Inr topf \<and>
           set (rows topf) \<subseteq> set (rows data) \<and>
           result = map to_record (rows topf) \<and>
           (\<forall>r \<in> set (rows topf).
              (if True then 3 < regularMarketChangePercent r
               else regularMarketChangePercent r < - (5 / 2)) \<and>
              (if Some ''in'' = None then 2000000000 else 1000000000) < intradaymarketcap r \<and>
              (if Some ''in'' = None then 5 else 10) < regularMarketPrice r \<and>
              1000 < regularMarketVolume r \<and>
              (\<forall>x. Some ''in'' = Some x \<longrightarrow> region r = x)))"
    by (elim exE conjE) (rule that)
  from res have five: "length result = 5"
    by (auto simp: top_stocks_examples(1))
  then have "result \<noteq> []"
    by auto
  with flt hyp obtain data topf
    where "screen_example (build_filters (Some ''in'') True) = Inr data"
      and "top_frame screen_example (Some ''in'') True = Inr topf"
      and "set (rows topf) \<subseteq> set (rows data)"
      and r: "result = map to_record (rows topf)"
      and "\<forall>r \<in> set (rows topf).
              3 < regularMarketChangePercent r \<and> 1000000000 < intradaymarketcap r \<and>
              10 < regularMarketPrice r \<and> 1000 < regularMarketVolume r \<and> region r = ''in''"
    by auto
  moreover from five r have "length (rows topf) = 5"
    by simp
  ultimately show ?thesis
    using res by (auto simp: list_all_iff)
qed

text \<open>
  The claim as written fails: an endpoint that returns quotes the query does not
  select gets them back in the list. Here a losers call with no region filter returns
  a row with percent change 1.
\<close>

theorem fetch_top_stocks_unchecked_counterexample:
  "fetch_top_stocks screen_unfiltered None False =
     Inr [\<lparr>stock_symbol = ''III'', price = 20, percent_change = - 3, day_volume = 5000\<rparr>,
          \<lparr>stock_symbol = ''HHH'', price = 20, percent_change = 1, day_volume = 5000\<rparr>,
          \<lparr>stock_symbol = ''AAA'', price = 20, percent_change = 4, day_volume = 5000\<rparr>,
          \<lparr>stock_symbol = ''DDD'', price = 20, percent_change = 5, day_volume = 5000\<rparr>,
          \<lparr>stock_symbol = ''CCC'', price = 20, percent_change = 6, day_volume = 5000\<rparr>] \<and>
   \<not> (1 :: rat) < - (5 / 2)"
  by (simp only: top_stocks_examples) simp

section \<open>Properties of the news\<close>

lemma symbol_step_top_item:
  "symbol_step tn symb (results, seen) =
     (case top_item tn symb of
        None \<Rightarrow> (results, seen)
      | Some it \<Rightarrow>
          if link it \<notin> seen then (results @ [it], insert (link it) seen) else (results, seen))"
  by (simp add: symbol_step_def top_item_def split: sum.splits list.splits prod.splits)

lemma top_link_top_item: "top_link tn symb = map_option link (top_item tn symb)"
  by (simp add: top_link_def top_item_def split: sum.splits list.splits prod.splits)

lemma top_item_symbol: "top_item tn symb = Some it \<Longrightarrow> news_symbol it = Some symb"
  by (auto simp: top_item_def split: sum.splits list.splits prod.splits)

lemma symbol_step_raise: "tn symb = Inl e \<Longrightarrow> symbol_step tn symb st = st"
  by (simp add: symbol_step_def)

lemma symbols_loop_skip:
  "tn symb = Inl e \<Longrightarrow>
     symbols_loop tn (pre @ symb # post) st = symbols_loop tn (pre @ post) st"
  by (induction pre arbitrary: st) (simp_all add: symbol_step_raise)

lemma symbols_loop_all_raise:
  "\<forall>symb \<in> set symbols. \<exists>e. tn symb = Inl e \<Longrightarrow> symbols_loop tn symbols st = Inr (fst st)"
  by (induction symbols arbitrary: st) (auto simp: symbol_step_raise)

lemma symbols_loop_invariant:
  assumes "seen = link ` set results" and "distinct (map link results)"
  shows "\<exists>new. symbols_loop tn symbols (results, seen) = Inr (results @ new) \<and>
           distinct (map link (results @ new)) \<and>
           (\<forall>it \<in> set new. link it \<notin> seen \<and>
              (\<exists>symb. news_symbol it = Some symb \<and>
                 find (\<lambda>s. top_link tn s = Some (link it)) symbols = Some symb)) \<and>
           (\<forall>symb \<in> set symbols. \<forall>l. top_link tn symb = Some l \<longrightarrow>
              l \<in> link ` set (results @ new))"
  using assms
proof (induction symbols arbitrary: results seen)
  case Nil
  then show ?case
    by simp
next
  case (Cons s ss)
  show ?case
  proof (cases "\<exists>it. top_item tn s = Some it \<and> link it \<notin> seen")
    case False
    then have step: "symbol_step tn s (results, seen) = (results, seen)"
      by (auto simp: symbol_step_top_item split: option.splits)
    from False have old: "top_link tn s = Some l \<Longrightarrow> l \<in> seen" for l
      by (auto simp: top_link_top_item)
    from Cons.IH [OF Cons.prems] obtain new
      where run: "symbols_loop tn ss (results, seen) = Inr (results @ new)"
        and dist: "distinct (map link (results @ new))"
        and fresh: "\<forall>it \<in> set new. link it \<notin> seen \<and>
              (\<exists>symb. news_symbol it = Some symb \<and>
                 find (\<lambda>s. top_link tn s = Some (link it)) ss = Some symb)"
        and all: "\<forall>symb \<in> set ss. \<forall>l. top_link tn symb = Some l \<longrightarrow>
              l \<in> link ` set (results @ new)"
      by blast
    have fresh': "\<forall>it \<in> set new. link it \<notin> seen \<and>
              (\<exists>symb. news_symbol it = Some symb \<and>
                 find (\<lambda>s. top_link tn s = Some (link it)) (s # ss) = Some symb)"
      using fresh old by auto
    have all': "\<forall>symb \<in> set (s # ss). \<forall>l. top_link tn symb = Some l \<longrightarrow>
              l \<in> link ` set (results @ new)"
      using all old Cons.prems(1) by auto
    from run step have "symbols_loop tn (s # ss) (results, seen) = Inr (results @ new)"
      by simp
    with dist fresh' all' show ?thesis
      by blast
  next
    case True
    then obtain it0 where it0: "top_item tn s = Some it0" and new0: "link it0 \<notin> seen"
      by blast
    have step: "symbol_step tn s (results, seen) =
        (results @ [it0], insert (link it0) seen)"
      using it0 new0 by (simp add: symbol_step_top_item)
    have tl: "top_link tn s = Some (link it0)"
      using it0 by (simp add: top_link_top_item)
    have inv1: "insert (link it0) seen = link ` set (results @ [it0])"
      using Cons.prems(1) by auto
    have inv2: "distinct (map link (results @ [it0]))"
      using Cons.prems new0 by auto
    from Cons.IH [OF inv1 inv2] obtain new
      where run: "symbols_loop tn ss (results @ [it0], insert (link it0) seen) =
          Inr ((results @ [it0]) @ new)"
        and dist: "distinct (map link ((results @ [it0]) @ new))"
        and fresh: "\<forall>it \<in> set new. link it \<notin> insert (link it0) seen \<and>
              (\<exists>symb. news_symbol it = Some symb \<and>
                 find (\<lambda>s. top_link tn s = Some (link it)) ss = Some symb)"
        and all: "\<forall>symb \<in> set ss. \<forall>l. top_link tn symb = Some l \<longrightarrow>
              l \<in> link ` set ((results @ [it0]) @ new)"
      by blast
    have run': "symbols_loop tn (s # ss) (results, seen) = Inr (results @ (it0 # new))"
      using run step by simp
    have dist': "distinct (map link (results @ (it0 # new)))"
      using dist by simp
    have first: "link it0 \<notin> seen \<and>
        (\<exists>symb. news_symbol it0 = Some symb \<and>
           find (\<lambda>s. top_link tn s = Some (link it0)) (s # ss) = Some symb)"
      using new0 tl top_item_symbol [OF it0] by simp
    have rest: "link it \<notin> seen \<and>
        (\<exists>symb. news_symbol it = Some symb \<and>
           find (\<lambda>s. top_link tn s = Some (link it)) (s # ss) = Some symb)"
      if "it \<in> set new" for it
    proof -
      from fresh that have a: "link it \<notin> insert (link it0) seen"
        and b: "\<exists>symb. news_symbol it = Some symb \<and>
                 find (\<lambda>s. top_link tn s = Some (link it)) ss = Some symb"
        by blast+
      from a have "top_link tn s \<noteq> Some (link it)"
        using tl by auto
      with a b show ?thesis
        by simp
    qed
    have fresh': "\<forall>it \<in> set (it0 # new). link it \<notin> seen \<and>
        (\<exists>symb. news_symbol it = Some symb \<and>
           find (\<lambda>s. top_link tn s = Some (link it)) (s # ss) = Some symb)"
      using first rest by simp
    have all': "\<forall>symb \<in> set (s # ss). \<forall>l. top_link tn symb = Some l \<longrightarrow>
              l \<in> link ` set (results @ (it0 # new))"
      using all tl by auto
    from run' dist' fresh' all' show ?thesis
      by blast
  qed
qed

lemma fetch_indian_news_run:
  "fetch_indian_news tn symbols = symbols_loop tn symbols ([], {})"
  using symbols_loop_invariant [of "{}" "[]" tn symbols]
  by (auto simp: fetch_indian_news_def try_except_def)

lemma news_examples:
  "fetch_indian_news news_example [''A'', ''B'', ''C'', ''D'', ''E'', ''F''] =
     Inr [\<lparr>news_symbol = Some ''A'', news_title = ''Rates'', publisher = ''Wire'',
           link = ''http://n/1''\<rparr>,
          \<lparr>news_symbol = Some ''D'', news_title = ''Oil'', publisher = ''Wire'',
           link = ''http://n/2''\<rparr>]"
  "fetch_indian_news news_example [''A'', ''B''] =
     Inr [\<lparr>news_symbol = Some ''A'', news_title = ''Rates'', publisher = ''Wire'',
           link = ''http://n/1''\<rparr>]"
  "top_link news_example ''A'' = Some ''http://n/1''"
  "top_link news_example ''C'' = Some ''http://n/1''"
  "news_example ''B'' = Inl UpstreamError"
  "news_example ''Z'' = Inl UpstreamError"
  "news_example ''^GSPC'' = Inl UpstreamError"
  by code_simp+

lemma filter_link_none:
  "l \<notin> link ` set xs \<Longrightarrow> filter (\<lambda>it. link it = l) xs = []"
  by (induction xs) auto

lemma filter_link_once:
  "distinct (map link xs) \<Longrightarrow> l \<in> link ` set xs \<Longrightarrow>
     length (filter (\<lambda>it. link it = l) xs) = 1"
  by (induction xs) (auto simp: filter_link_none)

text \<open>
  C5. For every symbol list and every behaviour of the news service,
  \<^verbatim>\<open>fetch_indian_news\<close> returns a list whose links are pairwise distinct. A link that
  the top story of some symbol resolves to appears in exactly one entry, however many
  symbols resolve to it, and each entry carries the first symbol of the input, in
  iteration order, whose top story resolves to its link. A symbol whose request raises
  is skipped and the iteration goes on: the result is the one the list without that
  symbol gives.
\<close>

theorem fetch_indian_news_distinct_first_symbol:
  "\<exists>result. fetch_indian_news ticker_news symbols = Inr result \<and>
     distinct (map link result) \<and>
     (\<forall>symb \<in> set symbols. \<forall>l. top_link ticker_news symb = Some l \<longrightarrow>
        length (filter (\<lambda>it. link it = l) result) = 1) \<and>
     (\<forall>it \<in> set result. \<exists>symb. news_symbol it = Some symb \<and>
        find (\<lambda>s. top_link ticker_news s = Some (link it)) symbols = Some symb) \<and>
     (\<forall>pre symb post e. symbols = pre @ symb # post \<and> ticker_news symb = Inl e \<longrightarrow>
        fetch_indian_news ticker_news (pre @ post) = Inr result)"
proof -
  from symbols_loop_invariant [of "{}" "[]" ticker_news symbols]
  obtain result
    where run: "symbols_loop ticker_news symbols ([], {}) = Inr result"
      and dist: "distinct (map link result)"
      and first: "\<forall>it \<in> set result. \<exists>symb. news_symbol it = Some symb \<and>
          find (\<lambda>s. top_link ticker_news s = Some (link it)) symbols = Some symb"
      and all: "\<forall>symb \<in> set symbols. \<forall>l. top_link ticker_news symb = Some l \<longrightarrow>
          l \<in> link ` set result"
    by auto
  have res: "fetch_indian_news ticker_news symbols = Inr result"
    by (simp add: fetch_indian_news_run run)
  have once: "length (filter (\<lambda>it. link it = l) result) = 1"
    if "symb \<in> set symbols" and "top_link ticker_news symb = Some l" for symb l
    using all that by (intro filter_link_once [OF dist]) blast
  have skip: "fetch_indian_news ticker_news (pre @ post) = Inr result"
    if "symbols = pre @ symb # post" and "ticker_news symb = Inl e" for pre symb post e
    using that run symbols_loop_skip [of ticker_news symb e pre post "([], {})"]
    by (simp add: fetch_indian_news_run)
  from res dist once first skip show ?thesis
    by blast
qed

theorem fetch_indian_news_distinct_first_symbol_witness:
  "\<exists>result. fetch_indian_news news_example [''A'', ''B'', ''C'', ''D'', ''E'', ''F''] = Inr result \<and>
     distinct (map link result) \<and>
     length (filter (\<lambda>it. link it = ''http://n/1'') result) = 1 \<and>
     fetch_indian_news news_example ([''A''] @ [''C'', ''D'', ''E'', ''F'']) = Inr result \<and>
     map news_symbol result = [Some ''A'', Some ''D'']"
proof -
  from fetch_indian_news_distinct_first_symbol
    [of news_example "[''A'', ''B'', ''C'', ''D'', ''E'', ''F'']"]
  obtain result
    where res: "fetch_indian_news news_example [''A'', ''B'', ''C'', ''D'', ''E'', ''F''] = Inr result"
      and dist: "distinct (map link result)"
      and once: "\<forall>symb \<in> set [''A'', ''B'', ''C'', ''D'', ''E'', ''F'']. \<forall>l.
          top_link news_example symb = Some l \<longrightarrow>
          length (filter (\<lambda>it. link it = l) result) = 1"
      and first: "\<forall>it \<in> set result. \<exists>symb. news_symbol it = Some symb \<and>
          find (\<lambda>s. top_link news_example s = Some (link it))
            [''A'', ''B'', ''C'', ''D'', ''E'', ''F''] = Some symb"
      and skip: "\<forall>pre symb post e.
          [''A'', ''B'', ''C'', ''D'', ''E'', ''F''] = pre @ symb # post \<and>
          news_example symb = Inl e \<longrightarrow>
          fetch_indian_news news_example (pre @ post) = Inr result"
    by (elim exE conjE) (rule that)
  have c: "''C'' \<in> set [''A'', ''B'', ''C'', ''D'', ''E'', ''F'']"
    by simp
  from once c news_examples(4) have one: "length (filter (\<lambda>it. link it = ''http://n/1'') result) = 1"
    by blast
  have "[''A'', ''B'', ''C'', ''D'', ''E'', ''F''] = [''A''] @ ''B'' # [''C'', ''D'', ''E'', ''F'']"
    by simp
  with news_examples(5)
    skip [THEN spec [of _ "[''A'']"], THEN spec [of _ "''B''"],
      THEN spec [of _ "[''C'', ''D'', ''E'', ''F'']"], THEN spec [of _ UpstreamError]]
  have two: "fetch_indian_news news_example ([''A''] @ [''C'', ''D'', ''E'', ''F'']) = Inr result"
    by (simp only: simp_thms)
  from res have syms: "map news_symbol result = [Some ''A'', Some ''D'']"
    by (auto simp: news_examples(1))
  show ?thesis
    by (rule exI [of _ result], intro conjI) (rule res, rule dist, rule one, rule two, rule syms)
qed

lemma fetch_top_stocks_returns:
  "\<exists>result. fetch_top_stocks screen region_filter gainers = Inr result"
  by (simp add: fetch_top_stocks_def try_except_def split: sum.split)

lemma fetch_global_news_returns: "\<exists>result. fetch_global_news tn = Inr result"
  by (simp add: fetch_global_news_def try_except_def split: sum.split)

lemma fetch_indian_news_returns: "\<exists>result. fetch_indian_news tn symbols = Inr result"
  using symbols_loop_invariant [of "{}" "[]" tn symbols]
  by (auto simp: fetch_indian_news_run)

text \<open>
  C6, as the code has it. For every input and every behaviour of the services,
  \<^verbatim>\<open>fetch_top_stocks\<close>, \<^verbatim>\<open>fetch_global_news\<close> and \<^verbatim>\<open>fetch_indian_news\<close> return a
  list: none of them raises. When the screening request raises, \<^verbatim>\<open>fetch_top_stocks\<close>
  returns the empty list; when the news request raises, or an article cannot be read,
  \<^verbatim>\<open>fetch_global_news\<close> returns the empty list. \<^verbatim>\<open>fetch_indian_news\<close> drops the
  symbols whose request raises and returns what the other symbols give, which is the
  empty list when every request raises.
\<close>

theorem fetch_functions_never_raise:
  "(\<exists>result. fetch_top_stocks screen region_filter gainers = Inr result) \<and>
   (\<exists>result. fetch_global_news ticker_news = Inr result) \<and>
   (\<exists>result. fetch_indian_news ticker_news symbols = Inr result) \<and>
   (\<forall>e. screen (build_filters region_filter gainers) = Inl e \<longrightarrow>
      fetch_top_stocks screen region_filter gainers = Inr []) \<and>
   (\<forall>e. ticker_news ''^GSPC'' = Inl e \<longrightarrow> fetch_global_news ticker_news = Inr []) \<and>
   (\<forall>news e. ticker_news ''^GSPC'' = Inr news \<and> global_news_loop news [] = Inl e \<longrightarrow>
      fetch_global_news ticker_news = Inr []) \<and>
   ((\<forall>symb \<in> set symbols. \<exists>e. ticker_news symb = Inl e) \<longrightarrow>
      fetch_indian_news ticker_news symbols = Inr []) \<and>
   (\<forall>pre symb post e. symbols = pre @ symb # post \<and> ticker_news symb = Inl e \<longrightarrow>
      fetch_indian_news ticker_news symbols = fetch_indian_news ticker_news (pre @ post))"
proof (intro conjI allI impI)
  show "\<exists>result. fetch_top_stocks screen region_filter gainers = Inr result"
    by (rule fetch_top_stocks_returns)
  show "\<exists>result. fetch_global_news ticker_news = Inr result"
    by (rule fetch_global_news_returns)
  show "\<exists>result. fetch_indian_news ticker_news symbols = Inr result"
    by (rule fetch_indian_news_returns)
next
  fix e assume "screen (build_filters region_filter gainers) = Inl e"
  then show "fetch_top_stocks screen region_filter gainers = Inr []"
    by (simp add: fetch_top_stocks_def top_frame_def try_except_def bind_exn_def)
next
  fix e assume "ticker_news ''^GSPC'' = Inl e"
  then show "fetch_global_news ticker_news = Inr []"
    by (simp add: fetch_global_news_def try_except_def bind_exn_def)
next
  fix news e
  assume "ticker_news ''^GSPC'' = Inr news \<and> global_news_loop news [] = Inl e"
  then show "fetch_global_news ticker_news = Inr []"
    by (simp add: fetch_global_news_def try_except_def bind_exn_def)
next
  assume "\<forall>symb \<in> set symbols. \<exists>e. ticker_news symb = Inl e"
  then show "fetch_indian_news ticker_news symbols = Inr []"
    by (simp add: fetch_indian_news_run symbols_loop_all_raise)
next
  fix pre symb post e
  assume "symbols = pre @ symb # post \<and> ticker_news symb = Inl e"
  then show "fetch_indian_news ticker_news symbols = fetch_indian_news ticker_news (pre @ post)"
    by (simp add: fetch_indian_news_run symbols_loop_skip [of ticker_news symb e])
qed

theorem fetch_functions_never_raise_witness:
  "fetch_top_stocks screen_down (Some ''in'') True = Inr [] \<and>
   fetch_global_news news_example = Inr [] \<and>
   fetch_indian_news news_example [''B'', ''Z''] = Inr []"
proof -
  note t = fetch_functions_never_raise
    [of screen_down "Some ''in''" True news_example "[''B'', ''Z'']"]
  have down: "screen_down (build_filters (Some ''in'') True) = Inl UpstreamError"
    by (simp add: screen_down_def)
  have allr: "\<forall>symb \<in> set [''B'', ''Z'']. \<exists>e. news_example symb = Inl e"
    by (simp add: news_examples)
  from t down have one: "fetch_top_stocks screen_down (Some ''in'') True = Inr []"
    by blast
  from t news_examples(7) have two: "fetch_global_news news_example = Inr []"
    by blast
  from t allr have three: "fetch_indian_news news_example [''B'', ''Z''] = Inr []"
    by blast
  from one two three show ?thesis
    by (intro conjI)
qed

text \<open>
  The claim as written fails for \<^verbatim>\<open>fetch_indian_news\<close>: the request for \<open>B\<close>
  raises, and the list returned for \<open>A\<close> and \<open>B\<close> is not empty.
\<close>

theorem fetch_indian_news_error_not_empty_counterexample:
  "news_example ''B'' = Inl UpstreamError \<and>
   fetch_indian_news news_example [''A'', ''B''] =
     Inr [\<lparr>news_symbol = Some ''A'', news_title = ''Rates'', publisher = ''Wire'',
           link = ''http://n/1''\<rparr>] \<and>
   fetch_indian_news news_example [''A'', ''B''] \<noteq> Inr []"
  by (simp add: news_examples)

section \<open>Properties of the form relay\<close>

lemma map_of_dict_set: "map_of (dict_set k v d) = (map_of d)(k \<mapsto> v)"
  by (induction d) (auto simp: fun_eq_iff)

lemma keys_dict_set:
  "map fst (dict_set k v d) = (if k \<in> fst ` set d then map fst d else map fst d @ [k])"
proof (induction d)
  case Nil
  show ?case by simp
next
  case (Cons p d)
  obtain k' v' where p: "p = (k', v')"
    by (cases p)
  show ?case
  proof (cases "k' = k")
    case True
    then show ?thesis by (simp add: p)
  next
    case False
    with Cons show ?thesis by (simp add: p)
  qed
qed

lemma distinct_dict_set:
  "distinct (map fst d) \<Longrightarrow> distinct (map fst (dict_set k v d))"
  by (simp add: keys_dict_set)

text \<open>
  C7. \<^verbatim>\<open>add_to_google_sheet\<close> at the inputs of the claim, the service answering every
  call. On an empty sheet the form \<open>{a: 1, b: 2}\<close> writes the header row \<open>a, b\<close>
  and appends the row \<open>1, 2\<close>. On a sheet with header \<open>a\<close> and one data row the
  form \<open>{a: 1, c: 3}\<close> replaces the header by \<open>a, c\<close> and appends \<open>1, 3\<close>. On
  a sheet that holds the header \<open>a\<close> and no data row, the same form inserts the
  header \<open>a, c\<close> above and appends \<open>1, 3\<close>, but the old header row is not
  deleted: it stays as row 2, against the claim. Such a sheet has no record, so the
  code takes it for a sheet without headers.
\<close>

theorem add_to_google_sheet_stale_header_kept:
  "add_to_google_sheet gspread_ok True [(''a'', ''1''), (''b'', ''2'')]
     \<lparr>outbox = [], sheet = []\<rparr> =
     (Inr True, \<lparr>outbox = [], sheet = [[''a'', ''b''], [''1'', ''2'']]\<rparr>) \<and>
   add_to_google_sheet gspread_ok True [(''a'', ''1''), (''c'', ''3'')]
     \<lparr>outbox = [], sheet = [[''a''], [''0'']]\<rparr> =
     (Inr True, \<lparr>outbox = [], sheet = [[''a'', ''c''], [''0''], [''1'', ''3'']]\<rparr>) \<and>
   add_to_google_sheet gspread_ok True [(''a'', ''1''), (''c'', ''3'')]
     \<lparr>outbox = [], sheet = [[''a'']]\<rparr> =
     (Inr True, \<lparr>outbox = [], sheet = [[''a'', ''c''], [''a''], [''1'', ''3'']]\<rparr>)"
  by code_simp

lemma send_email_returns:
  "fst (send_email password server now subject form_data w) =
     Inr (password \<noteq> [] \<and> connect server = None \<and> starttls server = None \<and>
          login server = None \<and> send_message server = None \<and> quit server = None)"
  by (simp add: send_email_def send_email_try_def Let_def split: option.splits)

lemma send_email_sheet:
  "sheet (snd (send_email password server now subject form_data w)) = sheet w"
  by (simp add: send_email_def send_email_try_def Let_def split: option.splits)

lemma send_email_outbox:
  "outbox (snd (send_email password server now subject form_data w)) =
     (if password \<noteq> [] \<and> connect server = None \<and> starttls server = None \<and>
         login server = None \<and> send_message server = None
      then outbox w @
        [\<lparr>msg_from = ''akash.yadavv181198@gmail.com'',
          msg_to = ''support@aadhaarcapital.com'',
          msg_subject = subject,
          table_rows = map (\<lambda>(key, value). (display_name key, value)) form_data,
          submitted_at = now\<rparr>]
      else outbox w)"
  by (simp add: send_email_def send_email_try_def Let_def split: option.splits)

lemma submit_form_response:
  "submit_form (Inr form) clk password server w =
     (Inr [(''success'', JBool True),
           (''message'', JStr ''Form submitted successfully''),
           (''email_sent'',
            JBool (password \<noteq> [] \<and> connect server = None \<and> starttls server = None \<and>
                   login server = None \<and> send_message server = None \<and> quit server = None)),
           (''timestamp'', JStr (response_time clk)),
           (''data'', JObj (collect_form form (stamp_time clk)))],
      snd (send_email password server (email_time clk)
             (dict_get (collect_form form (stamp_time clk)) ''subject''
                ''Aadhar Capital Website Enquiry'')
             (collect_form form (stamp_time clk)) w))"
proof -
  obtain r w' where run: "send_email password server (email_time clk)
             (dict_get (collect_form form (stamp_time clk)) ''subject''
                ''Aadhar Capital Website Enquiry'')
             (collect_form form (stamp_time clk)) w = (r, w')"
    by (rule prod.exhaust)
  from send_email_returns [of password server "email_time clk"
      "dict_get (collect_form form (stamp_time clk)) ''subject'' ''Aadhar Capital Website Enquiry''"
      "collect_form form (stamp_time clk)" w] run
  have r: "r = Inr (password \<noteq> [] \<and> connect server = None \<and> starttls server = None \<and>
          login server = None \<and> send_message server = None \<and> quit server = None)"
    by simp
  show ?thesis
    by (simp add: submit_form_def submit_form_try_def Let_def run r)
qed

lemma submit_form_sheet:
  "sheet (snd (submit_form request_form clk password server w)) = sheet w"
proof (cases request_form)
  case (Inl e)
  then show ?thesis
    by (simp add: submit_form_def submit_form_try_def)
next
  case (Inr form)
  then show ?thesis
    by (simp add: submit_form_response send_email_sheet)
qed

lemma submit_form_keys:
  "fst (submit_form request_form clk password server w) = Inr response \<Longrightarrow>
     map fst response = [''success'', ''message'', ''email_sent'', ''timestamp'', ''data'']"
  by (cases request_form)
    (auto simp: submit_form_response, simp add: submit_form_def submit_form_try_def)

lemma collect_loop_map_of:
  "map_of (foldl (\<lambda>d (key, value). dict_set key (g value) d) d0 form) k =
     (case map_of (rev form) k of None \<Rightarrow> map_of d0 k | Some v \<Rightarrow> Some (g v))"
  by (induction form rule: rev_induct) (auto simp: map_of_dict_set split: option.splits)

lemma collect_loop_distinct:
  "distinct (map fst d0) \<Longrightarrow>
     distinct (map fst (foldl (\<lambda>d (key, value). dict_set key (g value) d) d0 form))"
  by (induction form rule: rev_induct) (auto simp: distinct_dict_set)

lemma collect_form_distinct: "distinct (map fst (collect_form form now))"
  by (simp add: collect_form_def Let_def distinct_dict_set collect_loop_distinct)

lemma collect_form_timestamp: "map_of (collect_form form now) ''timestamp'' = Some now"
  by (simp add: collect_form_def Let_def map_of_dict_set)

lemma collect_form_empty_value:
  assumes "(key, []) \<in> set form" and "distinct (map fst form)" and "key \<noteq> ''timestamp''"
  shows "map_of (collect_form form now) key = Some ''Not provided''"
proof -
  have "distinct (map fst (rev form))"
    using assms(2) by (simp add: rev_map [symmetric])
  moreover have "(key, []) \<in> set (rev form)"
    using assms(1) by simp
  ultimately have "map_of (rev form) key = Some []"
    by (rule map_of_is_SomeI)
  then show ?thesis
    using assms(3) by (simp add: collect_form_def Let_def map_of_dict_set collect_loop_map_of)
qed

lemma filter_key_distinct:
  "distinct (map fst d) \<Longrightarrow> map_of d k = Some v \<Longrightarrow>
     filter (\<lambda>(k', v'). k' = k) d = [(k, v)]"
proof (induction d)
  case Nil
  then show ?case by simp
next
  case (Cons p d)
  obtain k' v' where p: "p = (k', v')"
    by (cases p)
  show ?case
  proof (cases "k' = k")
    case True
    with Cons.prems have "v' = v" and "k \<notin> fst ` set d"
      by (auto simp: p)
    then have "filter (\<lambda>(k', v'). k' = k) d = []"
      by (force simp: filter_empty_conv)
    with True \<open>v' = v\<close> show ?thesis
      by (simp add: p)
  next
    case False
    with Cons show ?thesis
      by (simp add: p)
  qed
qed

lemma form_examples:
  "submit_form (Inr [(''timestamp'', [])]) clock_example ''pw'' smtp_ok world_example =
     (Inr [(''success'', JBool True),
           (''message'', JStr ''Form submitted successfully''),
           (''email_sent'', JBool True),
           (''timestamp'', JStr ''2024-01-01T10:00:01''),
           (''data'', JObj [(''timestamp'', ''2024-01-01T10:00:00'')])],
      \<lparr>outbox =
         [\<lparr>msg_from = ''akash.yadavv181198@gmail.com'',
           msg_to = ''support@aadhaarcapital.com'',
           msg_subject = ''Aadhar Capital Website Enquiry'',
           table_rows = [(''Timestamp'', ''2024-01-01T10:00:00'')],
           submitted_at = ''2024-01-01 10:00:00''\<rparr>],
       sheet = [[''a''], [''0'']]\<rparr>)"
  "sheet (snd (add_to_google_sheet gspread_ok True [(''a'', ''5'')] world_example)) =
     [[''a''], [''0''], [''5'']]"
  "sheet world_example = [[''a''], [''0'']]"
  "stamp_time clock_example = ''2024-01-01T10:00:00''"
  "submit_form (Inr [(''name'', ''Jo'')]) clock_example ''pw'' smtp_quit_fails world_example =
     (Inr [(''success'', JBool True),
           (''message'', JStr ''Form submitted successfully''),
           (''email_sent'', JBool False),
           (''timestamp'', JStr ''2024-01-01T10:00:01''),
           (''data'', JObj [(''name'', ''Jo''), (''timestamp'', ''2024-01-01T10:00:00'')])],
      \<lparr>outbox =
         [\<lparr>msg_from = ''akash.yadavv181198@gmail.com'',
           msg_to = ''support@aadhaarcapital.com'',
           msg_subject = ''Aadhar Capital Website Enquiry'',
           table_rows = [(''Name'', ''Jo''), (''Timestamp'', ''2024-01-01T10:00:00'')],
           submitted_at = ''2024-01-01 10:00:00''\<rparr>],
       sheet = [[''a''], [''0'']]\<rparr>)"
  "send_message smtp_quit_fails = None"
  by code_simp+

text \<open>
  C8, as the code has it. For every \<^verbatim>\<open>POST /submit-form\<close> whose form is read, the
  handler answers with a response and no exception. A submitted field with an empty
  value, other than one named \<open>timestamp\<close>, is relayed as the literal
  \<open>Not provided\<close>; a timestamp is added to the relayed data; the data are echoed in
  the response and, when the message is sent, are the rows of the email. The
  response's \<open>email_sent\<close> is true when the password is set, the message is sent and
  the session is closed without an exception; it is false when the password is absent
  or the connection, STARTTLS, the login or the sending fails.
\<close>

theorem submit_form_relays_and_reports:
  assumes "request_form = Inr form" and "distinct (map fst form)"
  shows "\<exists>response w' form_data.
     submit_form request_form clk password server w = (Inr response, w') \<and>
     map_of response ''data'' = Some (JObj form_data) \<and>
     (\<forall>key. (key, []) \<in> set form \<and> key \<noteq> ''timestamp'' \<longrightarrow>
        map_of form_data key = Some ''Not provided'') \<and>
     map_of form_data ''timestamp'' = Some (stamp_time clk) \<and>
     (password \<noteq> [] \<and> connect server = None \<and> starttls server = None \<and>
      login server = None \<and> send_message server = None \<and> quit server = None \<longrightarrow>
        map_of response ''email_sent'' = Some (JBool True)) \<and>
     (password = [] \<or> connect server \<noteq> None \<or> starttls server \<noteq> None \<or>
      login server \<noteq> None \<or> send_message server \<noteq> None \<longrightarrow>
        map_of response ''email_sent'' = Some (JBool False)) \<and>
     (if password \<noteq> [] \<and> connect server = None \<and> starttls server = None \<and>
         login server = None \<and> send_message server = None
      then \<exists>msg. outbox w' = outbox w @ [msg] \<and>
             table_rows msg = map (\<lambda>(key, value). (display_name key, value)) form_data
      else outbox w' = outbox w)"
proof -
  let ?data = "collect_form form (stamp_time clk)"
  let ?subject = "dict_get ?data ''subject'' ''Aadhar Capital Website Enquiry''"
  let ?w' = "snd (send_email password server (email_time clk) ?subject ?data w)"
  have empties: "\<forall>key. (key, []) \<in> set form \<and> key \<noteq> ''timestamp'' \<longrightarrow>
      map_of ?data key = Some ''Not provided''"
    using assms(2) by (simp add: collect_form_empty_value)
  have box: "if password \<noteq> [] \<and> connect server = None \<and> starttls server = None \<and>
         login server = None \<and> send_message server = None
      then \<exists>msg. outbox ?w' = outbox w @ [msg] \<and>
             table_rows msg = map (\<lambda>(key, value). (display_name key, value)) ?data
      else outbox ?w' = outbox w"
    by (simp add: send_email_outbox)
  show ?thesis
    unfolding assms(1) submit_form_response
    by (rule exI, rule exI [of _ ?w'], rule exI [of _ ?data], intro conjI)
      (rule refl, simp, rule empties, rule collect_form_timestamp, simp, force, rule box)
qed

theorem submit_form_relays_and_reports_witness:
  "(\<exists>response w' form_data.
      submit_form (Inr [(''name'', ''Jo''), (''message'', [])]) clock_example ''pw'' smtp_ok
        world_example = (Inr response, w') \<and>
      map_of response ''data'' = Some (JObj form_data) \<and>
      map_of form_data ''message'' = Some ''Not provided'' \<and>
      map_of form_data ''timestamp'' = Some ''2024-01-01T10:00:00'' \<and>
      map_of response ''email_sent'' = Some (JBool True)) \<and>
   (\<exists>response w'.
      submit_form (Inr [(''name'', ''Jo''), (''message'', [])]) clock_example [] smtp_ok
        world_example = (Inr response, w') \<and>
      map_of response ''email_sent'' = Some (JBool False))"
proof -
  have d: "distinct (map fst [(''name'', ''Jo''), (''message'', [])])"
    by simp
  from submit_form_relays_and_reports [OF refl d, of clock_example "''pw''" smtp_ok world_example]
  have one: "\<exists>response w' form_data.
      submit_form (Inr [(''name'', ''Jo''), (''message'', [])]) clock_example ''pw'' smtp_ok
        world_example = (Inr response, w') \<and>
      map_of response ''data'' = Some (JObj form_data) \<and>
      map_of form_data ''message'' = Some ''Not provided'' \<and>
      map_of form_data ''timestamp'' = Some ''2024-01-01T10:00:00'' \<and>
      map_of response ''email_sent'' = Some (JBool True)"
    by (auto simp: smtp_ok_def form_examples(4))
  from submit_form_relays_and_reports [OF refl d, of clock_example "[]" smtp_ok world_example]
  have two: "\<exists>response w'.
      submit_form (Inr [(''name'', ''Jo''), (''message'', [])]) clock_example [] smtp_ok
        world_example = (Inr response, w') \<and>
      map_of response ''email_sent'' = Some (JBool False)"
    by auto
  from one two show ?thesis
    by (rule conjI)
qed

text \<open>
  The claim as written fails twice. A field named \<open>timestamp\<close>, submitted empty, is
  relayed (in the email and in the response) as the server's timestamp, not as
  \<open>Not provided\<close>. And when the server accepts the message and then \<^verbatim>\<open>quit()\<close>
  raises, the message is sent and \<open>email_sent\<close> is false.
\<close>

theorem submit_form_empty_timestamp_counterexample:
  "submit_form (Inr [(''timestamp'', [])]) clock_example ''pw'' smtp_ok world_example =
     (Inr [(''success'', JBool True),
           (''message'', JStr ''Form submitted successfully''),
           (''email_sent'', JBool True),
           (''timestamp'', JStr ''2024-01-01T10:00:01''),
           (''data'', JObj [(''timestamp'', ''2024-01-01T10:00:00'')])],
      \<lparr>outbox =
         [\<lparr>msg_from = ''akash.yadavv181198@gmail.com'',
           msg_to = ''support@aadhaarcapital.com'',
           msg_subject = ''Aadhar Capital Website Enquiry'',
           table_rows = [(''Timestamp'', ''2024-01-01T10:00:00'')],
           submitted_at = ''2024-01-01 10:00:00''\<rparr>],
       sheet = [[''a''], [''0'']]\<rparr>) \<and>
   ''2024-01-01T10:00:00'' \<noteq> ''Not provided'' \<and>
   send_message smtp_quit_fails = None \<and>
   submit_form (Inr [(''name'', ''Jo'')]) clock_example ''pw'' smtp_quit_fails world_example =
     (Inr [(''success'', JBool True),
           (''message'', JStr ''Form submitted successfully''),
           (''email_sent'', JBool False),
           (''timestamp'', JStr ''2024-01-01T10:00:01''),
           (''data'', JObj [(''name'', ''Jo''), (''timestamp'', ''2024-01-01T10:00:00'')])],
      \<lparr>outbox =
         [\<lparr>msg_from = ''akash.yadavv181198@gmail.com'',
           msg_to = ''support@aadhaarcapital.com'',
           msg_subject = ''Aadhar Capital Website Enquiry'',
           table_rows = [(''Name'', ''Jo''), (''Timestamp'', ''2024-01-01T10:00:00'')],
           submitted_at = ''2024-01-01 10:00:00''\<rparr>],
       sheet = [[''a''], [''0'']]\<rparr>)"
  by (simp only: form_examples(1,5,6) simp_thms) simp

text \<open>
  C9. No \<^verbatim>\<open>POST /submit-form\<close> writes the spreadsheet: whatever the request, the
  password and the SMTP server do, the sheet after the handler is the sheet before it,
  and a response has no \<open>sheet_updated\<close> field.
\<close>

theorem submit_form_never_writes_sheet:
  "sheet (snd (submit_form request_form clk password server w)) = sheet w \<and>
   (\<forall>response. fst (submit_form request_form clk password server w) = Inr response \<longrightarrow>
      ''sheet_updated'' \<notin> fst ` set response)"
proof (intro conjI allI impI)
  show "sheet (snd (submit_form request_form clk password server w)) = sheet w"
    by (rule submit_form_sheet)
next
  fix response
  assume "fst (submit_form request_form clk password server w) = Inr response"
  from submit_form_keys [OF this]
  have "set (map fst response) =
      set [''success'', ''message'', ''email_sent'', ''timestamp'', ''data'']"
    by simp
  then show "''sheet_updated'' \<notin> fst ` set response"
    by (simp only: set_map) simp
qed

theorem submit_form_never_writes_sheet_witness:
  "sheet (snd (submit_form (Inr [(''a'', ''5'')]) clock_example ''pw'' smtp_ok world_example)) =
     [[''a''], [''0'']] \<and>
   sheet (snd (add_to_google_sheet gspread_ok True [(''a'', ''5'')] world_example)) =
     [[''a''], [''0''], [''5'']]"
  using submit_form_never_writes_sheet
    [of "Inr [(''a'', ''5'')]" clock_example "''pw''" smtp_ok world_example]
  by (simp add: form_examples)

text \<open>
  C10. For every \<^verbatim>\<open>POST /submit-form\<close> whose form is read, the data relayed to the
  email and echoed in the response have exactly one entry named \<open>timestamp\<close>, and
  its value is the timestamp the server generated: a value the client submitted under
  that name is overwritten.
\<close>

theorem submit_form_server_timestamp:
  "request_form = Inr form \<longrightarrow>
   (\<exists>response w' form_data.
      submit_form request_form clk password server w = (Inr response, w') \<and>
      map_of response ''data'' = Some (JObj form_data) \<and>
      filter (\<lambda>(key, value). key = ''timestamp'') form_data =
        [(''timestamp'', stamp_time clk)] \<and>
      (outbox w' = outbox w \<or>
       (\<exists>msg. outbox w' = outbox w @ [msg] \<and>
          table_rows msg = map (\<lambda>(key, value). (display_name key, value)) form_data)))"
proof
  assume req: "request_form = Inr form"
  let ?data = "collect_form form (stamp_time clk)"
  let ?subject = "dict_get ?data ''subject'' ''Aadhar Capital Website Enquiry''"
  let ?w' = "snd (send_email password server (email_time clk) ?subject ?data w)"
  have only: "filter (\<lambda>(key, value). key = ''timestamp'') ?data =
      [(''timestamp'', stamp_time clk)]"
    by (rule filter_key_distinct [OF collect_form_distinct collect_form_timestamp])
  have box: "outbox ?w' = outbox w \<or>
       (\<exists>msg. outbox ?w' = outbox w @ [msg] \<and>
          table_rows msg = map (\<lambda>(key, value). (display_name key, value)) ?data)"
    by (simp add: send_email_outbox)
  show "\<exists>response w' form_data.
      submit_form request_form clk password server w = (Inr response, w') \<and>
      map_of response ''data'' = Some (JObj form_data) \<and>
      filter (\<lambda>(key, value). key = ''timestamp'') form_data =
        [(''timestamp'', stamp_time clk)] \<and>
      (outbox w' = outbox w \<or>
       (\<exists>msg. outbox w' = outbox w @ [msg] \<and>
          table_rows msg = map (\<lambda>(key, value). (display_name key, value)) form_data))"
    unfolding req submit_form_response
    by (rule exI, rule exI [of _ ?w'], rule exI [of _ ?data], intro conjI)
      (rule refl, simp, rule only, rule box)
qed

theorem submit_form_server_timestamp_witness:
  "\<exists>response w' form_data.
      submit_form (Inr [(''timestamp'', ''1999''), (''name'', ''Jo'')]) clock_example ''pw''
        smtp_ok world_example = (Inr response, w') \<and>
      map_of response ''data'' = Some (JObj form_data) \<and>
      filter (\<lambda>(key, value). key = ''timestamp'') form_data =
        [(''timestamp'', ''2024-01-01T10:00:00'')]"
  using submit_form_server_timestamp
    [of "Inr [(''timestamp'', ''1999''), (''name'', ''Jo'')]"
      "[(''timestamp'', ''1999''), (''name'', ''Jo'')]" clock_example "''pw''" smtp_ok
      world_example]
  by (auto simp: form_examples(4))

end
